theory Spec2Isabelle
  imports Complex_Main "HOL-Library.Sublist" "HOL-Library.Log_Nat"
begin

section \<open>JavaScript strings and numbers\<close>

text \<open>
  A JavaScript string is a sequence of UTF-16 code units. The model uses \<^typ>\<open>string\<close>, so
  it covers the strings whose code units are below 256 (ASCII and Latin-1); \<open>length\<close> is
  then the \<^verbatim>\<open>.length\<close> of the source. The character classes below are the ECMAScript
  ones restricted to that range: \<^verbatim>\<open>\s\<close> (also what \<^verbatim>\<open>trim\<close> removes) is TAB, LF, VT, FF,
  CR, SPACE and NBSP; \<^verbatim>\<open>\w\<close> is \<^verbatim>\<open>[A-Za-z0-9_]\<close>.
\<close>

definition isWhiteSpace :: "char \<Rightarrow> bool" where
  "isWhiteSpace c = (of_char c \<in> {9, 10, 11, 12, 13, 32, 160 :: nat})"

definition isWordChar :: "char \<Rightarrow> bool" where
  "isWordChar c = (let n = of_char c :: nat in
     (97 \<le> n \<and> n \<le> 122) \<or> (65 \<le> n \<and> n \<le> 90) \<or> (48 \<le> n \<and> n \<le> 57) \<or> n = 95)"

text \<open>\<^verbatim>\<open>toLowerCase\<close>: A-Z and the Latin-1 capitals (U+00C0 to U+00DE without U+00D7) move up by 32.\<close>

definition toLowerChar :: "char \<Rightarrow> char" where
  "toLowerChar c = (let n = of_char c :: nat in
     if (65 \<le> n \<and> n \<le> 90) \<or> (192 \<le> n \<and> n \<le> 222 \<and> n \<noteq> 215) then char_of (n + 32) else c)"

definition toLowerCase :: "string \<Rightarrow> string" where
  "toLowerCase s = map toLowerChar s"

definition trim :: "string \<Rightarrow> string" where
  "trim s = rev (dropWhile isWhiteSpace (rev (dropWhile isWhiteSpace s)))"

definition startsWith :: "string \<Rightarrow> string \<Rightarrow> bool" where
  "startsWith s t = (take (length t) s = t)"

text \<open>\<^verbatim>\<open>s.includes(t)\<close>: \<open>t\<close> occurs in \<open>s\<close> as a contiguous run.\<close>

fun includesStr :: "string \<Rightarrow> string \<Rightarrow> bool" where
  "includesStr [] t = (t = [])"
| "includesStr (c # cs) t = (startsWith (c # cs) t \<or> includesStr cs t)"

text \<open>Decimal rendering of an integer, as a template literal renders an integral number.\<close>

function showNat :: "nat \<Rightarrow> string" where
  "showNat n = (if n < 10 then [char_of (48 + n)] else showNat (n div 10) @ [char_of (48 + n mod 10)])"
  by pat_completeness auto
termination
  by (relation "measure id") auto

declare showNat.simps [simp del]

definition showInt :: "int \<Rightarrow> string" where
  "showInt i = (if i < 0 then CHR ''-'' # showNat (nat (- i)) else showNat (nat i))"

text \<open>
  Numbers are IEEE 754 doubles. A finite double is a rational, and every arithmetic
  operation of the source returns the exact result rounded to the nearest double, ties to
  even: \<open>fl\<close> is that rounding, for a 53-bit significand. The exponent is not bounded
  here; in the source all operands come from string lengths and counts, far inside the
  range of normal doubles. Integers below \<open>2 ^ 53\<close> are doubles, so counts and scores are
  kept as \<^typ>\<open>nat\<close>. \<open>ilog2 x\<close> is the integer part of the binary logarithm of a
  positive \<open>x\<close>, from the numbers of binary digits of its numerator and denominator.
\<close>

definition pow2 :: "int \<Rightarrow> rat" where
  "pow2 e = (if 0 \<le> e then 2 ^ nat e else 1 / 2 ^ nat (- e))"

definition ilog2 :: "rat \<Rightarrow> int" where
  "ilog2 x = (let (p, q) = quotient_of x;
                  e = bitlen p - bitlen q
              in if pow2 e \<le> x then e else e - 1)"

definition roundHalfEven :: "rat \<Rightarrow> int" where
  "roundHalfEven y = (let n = \<lfloor>y\<rfloor>; r = y - of_int n in
     if r < 1 / 2 then n else if 1 / 2 < r then n + 1 else if even n then n else n + 1)"

definition fl :: "rat \<Rightarrow> rat" where
  "fl x = (if x = 0 then 0 else
     let u = pow2 (ilog2 \<bar>x\<bar> - 52) in sgn x * of_int (roundHalfEven (\<bar>x\<bar> / u)) * u)"

text \<open>
  \<^verbatim>\<open>x.toFixed(f)\<close> for \<open>\<bar>x\<bar> < 10 ^ 21\<close>: the integer \<open>n\<close> with \<open>n / 10 ^ f\<close> nearest to \<open>x\<close>
  (the larger one on a tie), written with \<open>f\<close> digits after the point.
\<close>

definition toFixed :: "rat \<Rightarrow> nat \<Rightarrow> string" where
  "toFixed x f =
     (let a = \<bar>x\<bar>;
          n = nat \<lfloor>a * 10 ^ f + 1 / 2\<rfloor>;
          ds = showNat n;
          ds' = replicate (Suc f - length ds) CHR ''0'' @ ds;
          k = length ds' - f;
          body = (if f = 0 then ds' else take k ds' @ CHR ''.'' # drop k ds')
      in if x < 0 then CHR ''-'' # body else body)"

section \<open>Regular expressions\<close>

text \<open>
  The regular expression literals of the source are written as values of \<open>re\<close> and run by
  a backtracking matcher with ECMAScript's priorities: the left alternative first, a
  greedy star the longest repetition first, and an iteration of a star that consumes
  nothing is not taken. A position is the input before it (reversed) and the input after
  it; \<open>ends r p\<close> lists, in priority order, the positions where a match of \<open>r\<close> that
  starts at \<open>p\<close> can end.
\<close>

type_synonym pos = "string \<times> string"

datatype re =
    Chr "char \<Rightarrow> bool"
  | Eps
  | Seq re re
  | Alt re re
  | Star bool re
  | Bol
  | Eol
  | WordB

fun iter :: "bool \<Rightarrow> (pos \<Rightarrow> pos list) \<Rightarrow> nat \<Rightarrow> pos \<Rightarrow> pos list" where
  "iter g f 0 p = [p]"
| "iter g f (Suc n) p =
     (let more = concat (map (\<lambda>q. iter g f n q) (filter (\<lambda>q. length (snd q) < length (snd p)) (f p)))
      in if g then more @ [p] else p # more)"

definition wordAt :: "string \<Rightarrow> bool" where
  "wordAt s = (case s of [] \<Rightarrow> False | c # _ \<Rightarrow> isWordChar c)"

primrec ends :: "re \<Rightarrow> pos \<Rightarrow> pos list" where
  "ends (Chr P) p = (case snd p of [] \<Rightarrow> [] | c # cs \<Rightarrow> if P c then [(c # fst p, cs)] else [])"
| "ends Eps p = [p]"
| "ends (Seq r1 r2) p = concat (map (ends r2) (ends r1 p))"
| "ends (Alt r1 r2) p = ends r1 p @ ends r2 p"
| "ends (Star g r) p = iter g (ends r) (length (snd p)) p"
| "ends Bol p = (if fst p = [] then [p] else [])"
| "ends Eol p = (if snd p = [] then [p] else [])"
| "ends WordB p = (if wordAt (fst p) \<noteq> wordAt (snd p) then [p] else [])"

definition firstMatch :: "re \<Rightarrow> pos \<Rightarrow> pos option" where
  "firstMatch r p = (case ends r p of [] \<Rightarrow> None | q # _ \<Rightarrow> Some q)"

definition matched :: "pos \<Rightarrow> pos \<Rightarrow> string" where
  "matched p q = take (length (snd p) - length (snd q)) (snd p)"

text \<open>\<^verbatim>\<open>s.match(r)\<close> without the \<^verbatim>\<open>g\<close> flag: the text of the leftmost match.\<close>

fun execRe :: "re \<Rightarrow> pos \<Rightarrow> string option" where
  "execRe r (b, []) = (case firstMatch r (b, []) of None \<Rightarrow> None | Some q \<Rightarrow> Some [])"
| "execRe r (b, c # cs) =
     (case firstMatch r (b, c # cs) of
        None \<Rightarrow> execRe r (c # b, cs)
      | Some q \<Rightarrow> Some (matched (b, c # cs) q))"

definition testRe :: "re \<Rightarrow> string \<Rightarrow> bool" where
  "testRe r s = (execRe r ([], s) \<noteq> None)"

text \<open>
  \<^verbatim>\<open>s.match(r)\<close> with the \<^verbatim>\<open>g\<close> flag: the matches from left to right, each search
  starting where the last match ended, one code unit further after an empty match.
  \<open>[]\<close> stands for the \<^verbatim>\<open>null\<close> of no match; the source reads only the length.
\<close>

function matchAll :: "re \<Rightarrow> pos \<Rightarrow> string list" where
  "matchAll r (b, []) = (case firstMatch r (b, []) of None \<Rightarrow> [] | Some q \<Rightarrow> [[]])"
| "matchAll r (b, c # cs) =
     (case firstMatch r (b, c # cs) of
        None \<Rightarrow> matchAll r (c # b, cs)
      | Some q \<Rightarrow> matched (b, c # cs) q #
          (if length (snd q) < Suc (length cs) then matchAll r q else matchAll r (c # b, cs)))"
  by pat_completeness auto
termination
  by (relation "measure (\<lambda>(r, p). length (snd p))") auto

text \<open>
  \<^verbatim>\<open>s.replace(r, rep)\<close> with the \<^verbatim>\<open>g\<close> flag, for a replacement without \<^verbatim>\<open>$\<close>: every
  match gives way to \<open>rep\<close>. \<open>removeFirst_re\<close> is \<^verbatim>\<open>s.replace(r, '')\<close> without the flag:
  the leftmost match goes.
\<close>

function replaceAll_re :: "re \<Rightarrow> string \<Rightarrow> pos \<Rightarrow> string" where
  "replaceAll_re r rep (b, []) = (case firstMatch r (b, []) of None \<Rightarrow> [] | Some q \<Rightarrow> rep)"
| "replaceAll_re r rep (b, c # cs) =
     (case firstMatch r (b, c # cs) of
        None \<Rightarrow> c # replaceAll_re r rep (c # b, cs)
      | Some q \<Rightarrow>
          rep @ (if length (snd q) < Suc (length cs) then replaceAll_re r rep q
                 else c # replaceAll_re r rep (c # b, cs)))"
  by pat_completeness auto
termination
  by (relation "measure (\<lambda>(r, rep, p). length (snd p))") auto

fun removeFirst_re :: "re \<Rightarrow> pos \<Rightarrow> string" where
  "removeFirst_re r (b, []) = []"
| "removeFirst_re r (b, c # cs) =
     (case firstMatch r (b, c # cs) of
        None \<Rightarrow> c # removeFirst_re r (c # b, cs)
      | Some q \<Rightarrow> snd q)"

text \<open>
  \<^verbatim>\<open>s.split(r)\<close>: a match is tried at every index before the end of the string; a match
  that ends where the current field starts is skipped; \<open>cur\<close> is the current field,
  reversed. The empty string gives one empty field unless \<open>r\<close> matches it.
\<close>

function splitLoop :: "re \<Rightarrow> string \<Rightarrow> pos \<Rightarrow> string list" where
  "splitLoop r cur (b, []) = [rev cur]"
| "splitLoop r cur (b, c # cs) =
     (case firstMatch r (b, c # cs) of
        None \<Rightarrow> splitLoop r (c # cur) (c # b, cs)
      | Some q \<Rightarrow>
          (if length (snd q) < Suc (length cs) then rev cur # splitLoop r [] q
           else if cur = [] then splitLoop r [c] (c # b, cs)
           else rev cur # splitLoop r [c] (c # b, cs)))"
  by pat_completeness auto
termination
  by (relation "measure (\<lambda>(r, cur, p). length (snd p))") auto

definition splitRe :: "re \<Rightarrow> string \<Rightarrow> string list" where
  "splitRe r s = (if s = [] then (if firstMatch r ([], []) = None then [[]] else [])
                  else splitLoop r [] ([], s))"

text \<open>Building blocks: a character, a character under the \<^verbatim>\<open>i\<close> flag, classes, \<open>r+\<close>, sequences.\<close>

definition lit :: "char \<Rightarrow> re" where "lit c = Chr (\<lambda>x. x = c)"
definition ilit :: "char \<Rightarrow> re" where "ilit c = Chr (\<lambda>x. toLowerChar x = c)"
definition oneOf :: "string \<Rightarrow> re" where "oneOf cs = Chr (\<lambda>x. x \<in> set cs)"
definition noneOf :: "string \<Rightarrow> re" where "noneOf cs = Chr (\<lambda>x. x \<notin> set cs)"
definition plusRe :: "re \<Rightarrow> re" where "plusRe r = Seq r (Star True r)"
definition seqs :: "re list \<Rightarrow> re" where "seqs rs = foldr Seq rs Eps"
definition ilits :: "string \<Rightarrow> re" where "ilits s = seqs (map ilit s)"

definition quotes :: string where "quotes = [CHR 0x22, CHR 0x27]"
definition lowerAZ :: string where "lowerAZ = ''abcdefghijklmnopqrstuvwxyz''"
definition digits09 :: string where "digits09 = ''0123456789''"

section \<open>SEO analysis utilities\<close>

subsection \<open>The regular expression literals of the source\<close>

text \<open>\<^verbatim>\<open>/[^\w\s]/g\<close>, \<^verbatim>\<open>/\s+/\<close>, \<^verbatim>\<open>/<[^>]*>/g\<close>, \<^verbatim>\<open>/\n\n+/\<close> and \<^verbatim>\<open>/[.!?]+/\<close>.\<close>

definition re_punct :: re where
  "re_punct = Chr (\<lambda>c. \<not> isWordChar c \<and> \<not> isWhiteSpace c)"

definition re_spaces :: re where
  "re_spaces = plusRe (Chr isWhiteSpace)"

definition re_tag :: re where
  "re_tag = seqs [lit CHR ''<'', Star True (noneOf ''>''), lit CHR ''>'']"

definition re_paragraph :: re where
  "re_paragraph = seqs [lit CHR 0x0A, plusRe (lit CHR 0x0A)]"

definition re_sentence :: re where
  "re_sentence = plusRe (oneOf ''.!?'')"

text \<open>\<^verbatim>\<open>/<h1[^>]*>/gi\<close> and its like: \<open>name\<close> is \<^verbatim>\<open>h1\<close>, \<^verbatim>\<open>h2\<close>, \<^verbatim>\<open>h3\<close> or \<^verbatim>\<open>img\<close>.\<close>

definition re_open :: "string \<Rightarrow> re" where
  "re_open name = seqs [ilits (CHR ''<'' # name), Star True (noneOf ''>''), lit CHR ''>'']"

text \<open>\<^verbatim>\<open>/<a[^>]*href=["']([^"']*)["'][^>]*>/gi\<close> and \<^verbatim>\<open>/href=["']([^"']*)["']/i\<close>.\<close>

definition re_href :: re where
  "re_href = seqs [ilits ''href='', oneOf quotes, Star True (noneOf quotes), oneOf quotes]"

definition re_link :: re where
  "re_link = seqs [ilits ''<a'', Star True (noneOf ''>''), re_href, Star True (noneOf ''>''), lit CHR ''>'']"

text \<open>\<^verbatim>\<open>/alt=["'][^"']+["']/i\<close>, \<^verbatim>\<open>/\b[a-z]+\b/g\<close>, \<^verbatim>\<open>/[aeiouy]{1,2}/g\<close> and \<^verbatim>\<open>/^[a-z0-9-]+$/\<close>.\<close>

definition re_alt :: re where
  "re_alt = seqs [ilits ''alt='', oneOf quotes, plusRe (noneOf quotes), oneOf quotes]"

definition re_word :: re where
  "re_word = seqs [WordB, plusRe (oneOf lowerAZ), WordB]"

definition re_vowels :: re where
  "re_vowels = Seq (oneOf ''aeiouy'') (Alt (oneOf ''aeiouy'') Eps)"

definition re_slug :: re where
  "re_slug = seqs [Bol, plusRe (oneOf (lowerAZ @ digits09 @ ''-'')), Eol]"

subsection \<open>A regular expression made from the focus keyword\<close>

text \<open>
  \<^verbatim>\<open>new RegExp(keywordLower, 'g')\<close> reads the keyword as a pattern and throws a
  \<^verbatim>\<open>SyntaxError\<close> when it is not one. What the source needs from the host is the number
  of matches, \<^verbatim>\<open>(s.match(new RegExp(p, 'g')) || []).length\<close>, or the exception: a
  \<open>regexp_host\<close>. The functions below take the host as a parameter, so what is proved
  of them holds for every pattern language.
\<close>

datatype exn = SyntaxError | OutsideFragment

type_synonym regexp_host = "string \<Rightarrow> string \<Rightarrow> exn + nat"

text \<open>
  \<open>RegExp_count\<close> is the host on a fragment of the ECMAScript pattern syntax: pattern
  characters (every character but \<^verbatim>\<open>^ $ \ . * + ? ( ) [ ] { } |\<close>) and the dot, each
  with an optional quantifier \<^verbatim>\<open>*\<close>, \<^verbatim>\<open>+\<close> or \<^verbatim>\<open>?\<close>, lazy when a \<^verbatim>\<open>?\<close> follows it.
  A quantifier with nothing to repeat is a \<^verbatim>\<open>SyntaxError\<close>, as in ECMAScript, whatever
  comes after it. A pattern that leaves the fragment before such an error is answered
  \<open>OutsideFragment\<close>: the model does not say what the host does with it.
\<close>

definition isQuantifier :: "char \<Rightarrow> bool" where
  "isQuantifier c = (c \<in> set ''*+?'')"

definition quantify :: "char \<Rightarrow> bool \<Rightarrow> re \<Rightarrow> re" where
  "quantify q greedy a =
     (if q = CHR ''*'' then Star greedy a
      else if q = CHR ''+'' then Seq a (Star greedy a)
      else if greedy then Alt a Eps else Alt Eps a)"

definition atomOf :: "char \<Rightarrow> re" where
  "atomOf c = (if c = CHR ''.'' then noneOf [CHR 0x0A, CHR 0x0D] else lit c)"

fun parsePattern :: "string \<Rightarrow> exn + re list" where
  "parsePattern [] = Inr []"
| "parsePattern [c] =
     (if isQuantifier c then Inl SyntaxError
      else if c \<in> set ''^$()[]{}|'' \<or> c = CHR 0x5C then Inl OutsideFragment
      else Inr [atomOf c])"
| "parsePattern (c # q # cs) =
     (if isQuantifier c then Inl SyntaxError
      else if c \<in> set ''^$()[]{}|'' \<or> c = CHR 0x5C then Inl OutsideFragment
      else if isQuantifier q then
        (case cs of
           [] \<Rightarrow> Inr [quantify q True (atomOf c)]
         | l # cs' \<Rightarrow>
             if l = CHR ''?'' then map_sum id (\<lambda>rs. quantify q False (atomOf c) # rs) (parsePattern cs')
             else map_sum id (\<lambda>rs. quantify q True (atomOf c) # rs) (parsePattern (l # cs')))
      else map_sum id (\<lambda>rs. atomOf c # rs) (parsePattern (q # cs)))"

definition RegExp_count :: regexp_host where
  "RegExp_count p s = map_sum id (\<lambda>rs. length (matchAll (seqs rs) ([], s))) (parsePattern p)"

subsection \<open>The helper functions\<close>

definition stopWords :: "string list" where
  "stopWords = [''the'', ''a'', ''an'', ''and'', ''or'', ''but'', ''in'', ''on'', ''at'', ''to'', ''for'',
     ''of'', ''with'', ''by'', ''from'', ''as'', ''is'', ''was'', ''are'', ''be'', ''been'', ''being'',
     ''have'', ''has'', ''had'', ''do'', ''does'', ''did'', ''will'', ''would'', ''should'', ''could'',
     ''may'', ''might'', ''must'', ''can'', ''how'', ''what'', ''when'', ''where'', ''why'', ''which'',
     ''who'', ''best'', ''top'', ''guide'', ''tutorial'', ''2024'', ''2025'']"

definition titleWords :: "string \<Rightarrow> string list" where
  "titleWords title =
     filter (\<lambda>word. length word > 2 \<and> word \<notin> set stopWords)
       (splitRe re_spaces (replaceAll_re re_punct [] ([], toLowerCase title)))"

definition extractFocusKeyword :: "string \<Rightarrow> string list \<Rightarrow> string" where
  "extractFocusKeyword title tags =
     (case titleWords title of
        w0 # w1 # _ \<Rightarrow> w0 @ '' '' @ w1
      | ws \<Rightarrow> (case tags of
                 t # _ \<Rightarrow> toLowerCase t
               | [] \<Rightarrow> (case ws of w # _ \<Rightarrow> w | [] \<Rightarrow> [])))"

definition countWords :: "string \<Rightarrow> nat" where
  "countWords text = length (filter (\<lambda>word. length word > 0) (splitRe re_spaces (trim text)))"

definition calculateKeywordDensity :: "regexp_host \<Rightarrow> string \<Rightarrow> string \<Rightarrow> exn + rat" where
  "calculateKeywordDensity host content keyword =
     (if keyword = [] then Inr 0
      else case host (toLowerCase keyword) (toLowerCase content) of
        Inl e \<Rightarrow> Inl e
      | Inr keywordCount \<Rightarrow>
          (let totalWords = countWords content
           in Inr (if totalWords > 0
                   then fl (fl (of_nat keywordCount / of_nat totalWords) * 100) else 0)))"

definition keywordInText :: "string \<Rightarrow> string \<Rightarrow> bool" where
  "keywordInText text keyword =
     (if keyword = [] then False else includesStr (toLowerCase text) (toLowerCase keyword))"

definition stripTags :: "string \<Rightarrow> string" where
  "stripTags content = replaceAll_re re_tag [] ([], content)"

definition getFirstParagraph :: "string \<Rightarrow> string" where
  "getFirstParagraph content =
     (case splitRe re_paragraph (stripTags content) of [] \<Rightarrow> [] | p # _ \<Rightarrow> p)"

definition getLastParagraph :: "string \<Rightarrow> string" where
  "getLastParagraph content =
     (let paragraphs = filter (\<lambda>p. length (trim p) > 0) (splitRe re_paragraph (stripTags content))
      in if paragraphs = [] then [] else last paragraphs)"

definition countHeadings :: "string \<Rightarrow> nat \<times> nat \<times> nat" where
  "countHeadings content =
     (length (matchAll (re_open ''h1'') ([], content)),
      length (matchAll (re_open ''h2'') ([], content)),
      length (matchAll (re_open ''h3'') ([], content)))"

text \<open>
  The loop body of \<open>countLinks\<close>. The first group of \<^verbatim>\<open>hrefMatch\<close> is the matched text
  without \<^verbatim>\<open>href=\<close>, the opening quote and the closing quote.
\<close>

definition countLink :: "string \<Rightarrow> string \<Rightarrow> nat \<times> nat \<Rightarrow> nat \<times> nat" where
  "countLink currentDomain link acc =
     (case execRe re_href ([], link) of
        None \<Rightarrow> acc
      | Some m \<Rightarrow>
          (let href = butlast (drop 6 m) in
           if startsWith href ''/'' \<or> includesStr href currentDomain then (Suc (fst acc), snd acc)
           else if startsWith href ''http'' then (fst acc, Suc (snd acc))
           else acc))"

definition countLinks :: "string \<Rightarrow> string \<Rightarrow> nat \<times> nat" where
  "countLinks content currentDomain =
     fold (countLink currentDomain) (matchAll re_link ([], content)) (0, 0)"

definition countImages :: "string \<Rightarrow> nat \<times> nat" where
  "countImages content =
     (let images = matchAll (re_open ''img'') ([], content)
      in (length images, length (filter (testRe re_alt) images)))"

definition estimateSyllables :: "string \<Rightarrow> nat" where
  "estimateSyllables text =
     sum_list (map (\<lambda>word. let k = length (matchAll re_vowels ([], word)) in if k = 0 then 1 else k)
                   (matchAll re_word ([], toLowerCase text)))"

definition calculateReadability :: "string \<Rightarrow> rat" where
  "calculateReadability content =
     (let text = stripTags content;
          sentences = length (filter (\<lambda>s. length (trim s) > 0) (splitRe re_sentence text));
          words = countWords text;
          syllables = estimateSyllables text
      in if sentences = 0 \<or> words = 0 then 0
         else let score = fl (fl (fl (206835 / 1000) - fl (fl (1015 / 1000) * fl (of_nat words / of_nat sentences)))
                              - fl (fl (846 / 10) * fl (of_nat syllables / of_nat words)))
              in max 0 (min 100 score))"

subsection \<open>The analysis record\<close>

datatype status = Good | Warning | Error

datatype js_value = Num nat | Str string

record SEOCheck =
  status :: status
  val :: js_value
  message :: string
  score :: nat

record ContentCheck = SEOCheck +
  wordCount :: nat

record KeywordCheck = SEOCheck +
  keyword :: string
  density :: rat
  inTitle :: bool
  inFirstParagraph :: bool
  inLastParagraph :: bool
  count :: nat

record HeadingCheck = SEOCheck +
  h1Count :: nat
  h2Count :: nat
  h3Count :: nat

record LinkCheck = SEOCheck +
  internal :: nat
  external :: nat

record ImageCheck = SEOCheck +
  total :: nat
  withAlt :: nat

record ReadabilityCheck = SEOCheck +
  grade :: rat

record SEOAnalysis =
  overall :: nat
  title_check :: SEOCheck
  description_check :: SEOCheck
  content_check :: ContentCheck
  keyword_check :: KeywordCheck
  headings_check :: HeadingCheck
  links_check :: LinkCheck
  images_check :: ImageCheck
  slug_check :: SEOCheck
  readability_check :: ReadabilityCheck
  suggestions :: "string list"

text \<open>
  The fields of \<^verbatim>\<open>SEOAnalysis\<close> are \<^verbatim>\<open>score\<close>, \<^verbatim>\<open>title\<close>, \<^verbatim>\<open>description\<close>, \<^verbatim>\<open>content\<close>,
  \<^verbatim>\<open>keyword\<close>, \<^verbatim>\<open>headings\<close>, \<^verbatim>\<open>links\<close>, \<^verbatim>\<open>images\<close>, \<^verbatim>\<open>slug\<close>, \<^verbatim>\<open>readability\<close> and
  \<^verbatim>\<open>suggestions\<close>. The score is \<open>overall\<close> here and the checks carry the suffix
  \<open>_check\<close>, which keeps them apart from the fields of a check and from the arguments of
  \<open>analyzeSEO\<close>; the field \<^verbatim>\<open>value\<close> of a check is \<open>val\<close>.
\<close>

subsection \<open>The nine checks\<close>

text \<open>
  Each check of \<open>analyzeSEO\<close> is a block that fills one record, pushes its suggestions
  and adds its score to the total. A block is modelled as a function to the record and
  the suggestions it pushes, in the order of the pushes.
\<close>

definition dquote :: "string \<Rightarrow> string" where
  "dquote s = CHR 0x22 # s @ [CHR 0x22]"

definition titleBlock :: "string \<Rightarrow> SEOCheck \<times> string list" where
  "titleBlock title =
     (let n = length title in
      if n = 0 then
        (\<lparr>status = Error, val = Num n, message = ''Title is required'', score = 0\<rparr>,
         [''Add a title to your article''])
      else if n < 30 then
        (\<lparr>status = Warning, val = Num n,
          message = ''Title too short ('' @ showNat n @ '' chars). Aim for 50-60.'', score = 7\<rparr>,
         [''Lengthen your title to 50-60 characters''])
      else if n > 60 then
        (\<lparr>status = Warning, val = Num n,
          message = ''Title too long ('' @ showNat n @ '' chars). Keep under 60.'', score = 10\<rparr>,
         [''Shorten your title to under 60 characters''])
      else
        (\<lparr>status = Good, val = Num n,
          message = ''Title length perfect ('' @ showNat n @ '' chars)'', score = 15\<rparr>,
         []))"

definition descBlock :: "string \<Rightarrow> SEOCheck \<times> string list" where
  "descBlock description =
     (let n = length description in
      if n = 0 then
        (\<lparr>status = Error, val = Num n, message = ''Meta description is required'', score = 0\<rparr>,
         [''Add a meta description''])
      else if n < 120 then
        (\<lparr>status = Warning, val = Num n,
          message = ''Too short ('' @ showNat n @ '' chars). Aim for 150-160.'', score = 5\<rparr>,
         [''Add '' @ showNat (160 - n) @ '' more characters to meta description''])
      else if n > 160 then
        (\<lparr>status = Warning, val = Num n,
          message = ''Too long ('' @ showNat n @ '' chars). Keep under 160.'', score = 7\<rparr>,
         [''Shorten meta description to under 160 characters''])
      else
        (\<lparr>status = Good, val = Num n,
          message = ''Perfect length ('' @ showNat n @ '' chars)'', score = 10\<rparr>,
         []))"

definition contentBlock :: "nat \<Rightarrow> ContentCheck \<times> string list" where
  "contentBlock wc =
     (if wc = 0 then
        (\<lparr>status = Error, val = Num wc, message = ''Content is empty'', score = 0, wordCount = wc\<rparr>,
         [''Write your article content''])
      else if wc < 300 then
        (\<lparr>status = Error, val = Num wc,
          message = ''Too short ('' @ showNat wc @ '' words). Minimum 1500 words.'', score = 5,
          wordCount = wc\<rparr>,
         [''Add '' @ showNat (1500 - wc) @ '' more words to reach minimum''])
      else if wc < 1000 then
        (\<lparr>status = Warning, val = Num wc,
          message = ''Short ('' @ showNat wc @ '' words). Aim for 1500+.'', score = 10,
          wordCount = wc\<rparr>,
         [''Add '' @ showNat (1500 - wc) @ '' more words for better SEO''])
      else if wc < 1500 then
        (\<lparr>status = Warning, val = Num wc,
          message = ''Good ('' @ showNat wc @ '' words). Aim for 1500+.'', score = 15,
          wordCount = wc\<rparr>,
         [''Add '' @ showNat (1500 - wc) @ '' more words to reach target''])
      else
        (\<lparr>status = Good, val = Num wc,
          message = ''Excellent ('' @ showNat wc @ '' words)'', score = 20, wordCount = wc\<rparr>,
         []))"

definition keywordBlock ::
  "string \<Rightarrow> string \<Rightarrow> string \<Rightarrow> string \<Rightarrow> rat \<Rightarrow> nat \<Rightarrow> nat \<Rightarrow> KeywordCheck \<times> string list" where
  "keywordBlock title focusKeyword firstParagraph lastParagraph keywordDensity wc keywordCount =
     (let inT = keywordInText title focusKeyword;
          inF = keywordInText firstParagraph focusKeyword;
          inL = keywordInText lastParagraph focusKeyword;
          s1 = (if inT then [] else [''Add '' @ dquote focusKeyword @ '' to your title'']);
          s2 = (if inF then [] else [''Add '' @ dquote focusKeyword @ '' to first paragraph'']);
          s3 = (if inL then [] else [''Add '' @ dquote focusKeyword @ '' to last paragraph'']);
          base = (if inT then 5 else 0) + (if inF then 5 else 0) + (if inL then 3 else 0);
          (st, msg, pts, s4) =
            (if 1 / 2 \<le> keywordDensity \<and> keywordDensity \<le> 5 / 2 then
               (Good, ''Keyword density perfect ('' @ toFixed keywordDensity 1 @ ''%)'', 7, [])
             else if keywordDensity < 1 / 2 then
               (Warning,
                ''Keyword density low ('' @ toFixed keywordDensity 1 @ ''%). Use '' @ dquote focusKeyword
                  @ '' more.'', 3,
                [''Use '' @ dquote focusKeyword @ '' ''
                   @ showInt \<lceil>fl (fl (fl (1 / 100) * of_nat wc) - of_nat keywordCount)\<rceil>
                   @ '' more times''])
             else
               (Warning, ''Keyword density high ('' @ toFixed keywordDensity 1 @ ''%). Reduce usage.'', 3,
                [''Reduce keyword usage to avoid keyword stuffing'']))
      in (\<lparr>status = st, val = Str (toFixed keywordDensity 2), message = msg, score = base + pts,
           keyword = focusKeyword, density = keywordDensity, inTitle = inT, inFirstParagraph = inF,
           inLastParagraph = inL, count = keywordCount\<rparr>,
          s1 @ s2 @ s3 @ s4))"

definition headingBlock :: "nat \<times> nat \<times> nat \<Rightarrow> HeadingCheck \<times> string list" where
  "headingBlock hs =
     (let (h1, h2, h3) = hs;
          v = Str (''H1:'' @ showNat h1 @ '' H2:'' @ showNat h2 @ '' H3:'' @ showNat h3) in
      if h1 = 0 then
        (\<lparr>status = Error, val = v, message = ''No H1 heading found'', score = 0,
          h1Count = h1, h2Count = h2, h3Count = h3\<rparr>,
         [''Add one H1 heading''])
      else if h1 > 1 then
        (\<lparr>status = Warning, val = v,
          message = ''Multiple H1 headings ('' @ showNat h1 @ ''). Use only one.'', score = 5,
          h1Count = h1, h2Count = h2, h3Count = h3\<rparr>,
         [''Use only one H1 heading per article''])
      else if h2 < 2 then
        (\<lparr>status = Warning, val = v, message = ''Add more H2 headings for structure'', score = 7,
          h1Count = h1, h2Count = h2, h3Count = h3\<rparr>,
         [''Add at least 3-5 H2 headings''])
      else
        (\<lparr>status = Good, val = v, message = ''Good heading structure'', score = 10,
          h1Count = h1, h2Count = h2, h3Count = h3\<rparr>,
         []))"

definition linkBlock :: "nat \<times> nat \<Rightarrow> LinkCheck \<times> string list" where
  "linkBlock ls =
     (let (int, ext) = ls;
          (p1, w1, s1) =
            (if 3 \<le> int \<and> int \<le> 7 then (6, False, [])
             else if int < 3 then (3, True, [''Add '' @ showNat (3 - int) @ '' more internal links''])
             else (5, False, []));
          (p2, w2, s2) =
            (if 2 \<le> ext \<and> ext \<le> 5 then (4, False, [])
             else if ext < 2 then (2, True, [''Add '' @ showNat (2 - ext) @ '' more external links''])
             else (3, False, []));
          st = (if w1 \<or> w2 then Warning else Good)
      in (\<lparr>status = st,
           val = Str (''Internal:'' @ showNat int @ '' External:'' @ showNat ext),
           message = (if st = Good then ''Good link structure'' else ''Improve link structure''),
           score = p1 + p2, internal = int, external = ext\<rparr>,
          s1 @ s2))"

definition imageBlock :: "nat \<times> nat \<Rightarrow> ImageCheck \<times> string list" where
  "imageBlock im =
     (let (tot, alt) = im;
          v = Str (showNat tot @ '' images, '' @ showNat alt @ '' with alt'') in
      if tot = 0 then
        (\<lparr>status = Warning, val = v,
          message = ''No images found. Add images to improve engagement.'', score = 2,
          total = tot, withAlt = alt\<rparr>,
         [''Add at least 3-5 images to your article''])
      else if alt < tot then
        (\<lparr>status = Warning, val = v,
          message = showNat (tot - alt) @ '' images missing alt text'', score = 3,
          total = tot, withAlt = alt\<rparr>,
         [''Add alt text to '' @ showNat (tot - alt) @ '' images''])
      else
        (\<lparr>status = Good, val = v, message = ''All images have alt text'', score = 5,
          total = tot, withAlt = alt\<rparr>,
         []))"

definition slugBlock :: "string \<Rightarrow> SEOCheck \<times> string list" where
  "slugBlock slug =
     (if length slug = 0 then
        (\<lparr>status = Error, val = Str slug, message = ''URL slug is required'', score = 0\<rparr>,
         [''Add a URL slug''])
      else if length slug > 60 then
        (\<lparr>status = Warning, val = Str slug,
          message = ''Slug too long. Keep under 60 characters.'', score = 3\<rparr>,
         [''Shorten URL slug''])
      else if \<not> testRe re_slug slug then
        (\<lparr>status = Warning, val = Str slug,
          message = ''Use only lowercase letters, numbers, and hyphens'', score = 3\<rparr>,
         [''Fix URL slug format''])
      else
        (\<lparr>status = Good, val = Str slug, message = ''Good URL slug'', score = 5\<rparr>,
         []))"

definition readabilityBlock :: "rat \<Rightarrow> ReadabilityCheck \<times> string list" where
  "readabilityBlock r =
     (if 60 \<le> r then
        (\<lparr>status = Good, val = Str (toFixed r 0), message = ''Easy to read'', score = 5, grade = r\<rparr>,
         [])
      else if 30 \<le> r then
        (\<lparr>status = Warning, val = Str (toFixed r 0), message = ''Fairly difficult to read'',
          score = 3, grade = r\<rparr>,
         [''Simplify sentences for better readability''])
      else
        (\<lparr>status = Warning, val = Str (toFixed r 0), message = ''Difficult to read'', score = 2,
          grade = r\<rparr>,
         [''Use shorter sentences and simpler words'']))"

subsection \<open>The complete analysis\<close>

text \<open>
  \<open>analyzeSEO\<close> with the host's regular expressions as a parameter. The two places that
  build a \<^verbatim>\<open>RegExp\<close> from the keyword are the two places where it can throw; the first is
  inside \<open>calculateKeywordDensity\<close>, which returns early on an empty keyword, the second
  has no such guard. \<^verbatim>\<open>Math.round\<close> of the total is the total, a sum of integers.
\<close>

definition analyzeSEO_on ::
  "regexp_host \<Rightarrow> string \<Rightarrow> string \<Rightarrow> string \<Rightarrow> string \<Rightarrow> string list \<Rightarrow> exn + SEOAnalysis" where
  "analyzeSEO_on host title description content slug tags =
     (let focusKeyword = extractFocusKeyword title tags;
          wc = countWords content
      in case calculateKeywordDensity host content focusKeyword of
           Inl e \<Rightarrow> Inl e
         | Inr keywordDensity \<Rightarrow>
       (case host (toLowerCase focusKeyword) (toLowerCase content) of
           Inl e \<Rightarrow> Inl e
         | Inr keywordCount \<Rightarrow>
          (let firstParagraph = getFirstParagraph content;
               lastParagraph = getLastParagraph content;
               (titleCheck, sg1) = titleBlock title;
               (descCheck, sg2) = descBlock description;
               (contentCheck, sg3) = contentBlock wc;
               (kwCheck, sg4) = keywordBlock title focusKeyword firstParagraph lastParagraph
                                  keywordDensity wc keywordCount;
               (headingCheck, sg5) = headingBlock (countHeadings content);
               (linkCheck, sg6) = linkBlock (countLinks content ''iptv-blogg.site'');
               (imageCheck, sg7) = imageBlock (countImages content);
               (slugCheck, sg8) = slugBlock slug;
               (readabilityCheck, sg9) = readabilityBlock (calculateReadability content);
               totalScore = score titleCheck + score descCheck + score contentCheck + score kwCheck
                            + score headingCheck + score linkCheck + score imageCheck
                            + score slugCheck + score readabilityCheck
           in Inr \<lparr>overall = totalScore, title_check = titleCheck, description_check = descCheck,
                   content_check = contentCheck, keyword_check = kwCheck,
                   headings_check = headingCheck, links_check = linkCheck,
                   images_check = imageCheck, slug_check = slugCheck,
                   readability_check = readabilityCheck,
                   suggestions = take 5 (sg1 @ sg2 @ sg3 @ sg4 @ sg5 @ sg6 @ sg7 @ sg8 @ sg9)\<rparr>)))"

text \<open>The analysis on the host fragment of \<open>RegExp_count\<close>, for evaluation on concrete inputs.\<close>

definition analyzeSEO :: "string \<Rightarrow> string \<Rightarrow> string \<Rightarrow> string \<Rightarrow> string list \<Rightarrow> exn + SEOAnalysis" where
  "analyzeSEO = analyzeSEO_on RegExp_count"

subsection \<open>Notions the properties are stated with\<close>

text \<open>
  The words of a text: its maximal runs of characters that are not white space, from left
  to right.
\<close>

function tokens :: "string \<Rightarrow> string list" where
  "tokens s =
     (case dropWhile isWhiteSpace s of
        [] \<Rightarrow> []
      | c # cs \<Rightarrow> (c # takeWhile (\<lambda>x. \<not> isWhiteSpace x) cs)
                 # tokens (dropWhile (\<lambda>x. \<not> isWhiteSpace x) cs))"
  by pat_completeness auto
termination
proof (relation "measure length", goal_cases)
  case 1
  show ?case by simp
next
  case (2 s c cs)
  have "length (dropWhile (\<lambda>x. \<not> isWhiteSpace x) cs) \<le> length cs"
    by (rule length_dropWhile_le)
  moreover have "length (c # cs) \<le> length s"
    using 2 length_dropWhile_le[of isWhiteSpace s] by simp
  ultimately show ?case by simp
qed

declare tokens.simps [simp del]

text \<open>
  The words of a title that can make a focus keyword: the words of the lowercased title
  without the characters that are neither word characters nor white space, as far as they
  are longer than two characters and not stop words.
\<close>

definition usableWords :: "string \<Rightarrow> string list" where
  "usableWords title =
     filter (\<lambda>w. length w > 2 \<and> w \<notin> set stopWords)
       (tokens (filter (\<lambda>c. isWordChar c \<or> isWhiteSpace c) (toLowerCase title)))"

text \<open>A keyword occurs in a text: it is not empty and, case aside, a contiguous part of it.\<close>

definition occursIn :: "string \<Rightarrow> string \<Rightarrow> bool" where
  "occursIn k text = (k \<noteq> [] \<and> sublist (toLowerCase k) (toLowerCase text))"

text \<open>
  The focus keyword as the specification words it: the first two words of the title that
  are not stop words, else the first tag, else the first word of the title, else nothing.
  It differs from \<open>extractFocusKeyword\<close>, which also drops the words of one or two
  characters.
\<close>

definition focusKeyword_as_specified :: "string \<Rightarrow> string list \<Rightarrow> string" where
  "focusKeyword_as_specified title tags =
     (let ws = tokens (filter (\<lambda>c. isWordChar c \<or> isWhiteSpace c) (toLowerCase title))
      in case filter (\<lambda>w. w \<notin> set stopWords) ws of
           w0 # w1 # _ \<Rightarrow> w0 @ '' '' @ w1
         | _ \<Rightarrow> (case tags of
                    t # _ \<Rightarrow> toLowerCase t
                  | [] \<Rightarrow> (case ws of w # _ \<Rightarrow> w | [] \<Rightarrow> [])))"

text \<open>
  A character that stands for itself in a pattern and takes part in no syntax of the
  fragment.
\<close>

definition plainChar :: "char \<Rightarrow> bool" where
  "plainChar c = (\<not> isQuantifier c \<and> \<not> (c \<in> set ''^$()[]{}|'' \<or> c = CHR 0x5C))"

section \<open>The sitemap\<close>

text \<open>
  The tables the sitemap reads, with the columns it reads. \<open>connected\<close> says whether a
  query reaches the database: a Prisma query on a database that cannot be reached throws.
\<close>

datatype article_status = DRAFT | PUBLISHED | ARCHIVED

record article =
  article_slug :: string
  article_updatedAt :: nat
  article_status :: article_status

record category =
  category_slug :: string
  category_updatedAt :: nat
  category_isActive :: bool

record page =
  page_slug :: string
  page_updatedAt :: nat
  page_isActive :: bool

record prisma =
  articles :: "article list"
  categories :: "category list"
  pages :: "page list"
  connected :: bool

datatype db_error = PrismaClientError

text \<open>The result of \<^verbatim>\<open>select: { slug: true, updatedAt: true }\<close>.\<close>

record row =
  row_slug :: string
  row_updatedAt :: nat

text \<open>
  The three queries. \<^verbatim>\<open>orderBy: { updatedAt: 'desc' }\<close> sorts the published articles,
  latest first; rows of equal \<^verbatim>\<open>updatedAt\<close> keep their table order here, where the
  database may choose any. The other two queries have no \<^verbatim>\<open>orderBy\<close> and return the
  rows in table order.
\<close>

definition articleRow :: "article \<Rightarrow> row" where
  "articleRow a = \<lparr>row_slug = article_slug a, row_updatedAt = article_updatedAt a\<rparr>"

definition categoryRow :: "category \<Rightarrow> row" where
  "categoryRow c = \<lparr>row_slug = category_slug c, row_updatedAt = category_updatedAt c\<rparr>"

definition pageRow :: "page \<Rightarrow> row" where
  "pageRow c = \<lparr>row_slug = page_slug c, row_updatedAt = page_updatedAt c\<rparr>"

definition findPublishedArticles :: "prisma \<Rightarrow> db_error + row list" where
  "findPublishedArticles p =
     (if connected p
      then Inr (map articleRow
                 (sort_key (\<lambda>a. - int (article_updatedAt a))
                    (filter (\<lambda>a. article_status a = PUBLISHED) (articles p))))
      else Inl PrismaClientError)"

definition findActiveCategories :: "prisma \<Rightarrow> db_error + row list" where
  "findActiveCategories p =
     (if connected p
      then Inr (map categoryRow (filter category_isActive (categories p)))
      else Inl PrismaClientError)"

definition findActivePages :: "prisma \<Rightarrow> db_error + row list" where
  "findActivePages p =
     (if connected p
      then Inr (map pageRow (filter page_isActive (pages p)))
      else Inl PrismaClientError)"

text \<open>
  Modelled from the spec: \<^verbatim>\<open>safeDbOperation\<close> of \<^verbatim>\<open>@/lib/db-utils\<close> is not among the
  sources. By its name, its call sites and the specification's ``errors are caught
  per-request'', it runs the operation and returns its result, or the fallback when the
  operation throws. The \<^verbatim>\<open>|| []\<close> after each call changes nothing then: an array is
  truthy.
\<close>

definition safeDbOperation :: "db_error + 'a \<Rightarrow> 'a \<Rightarrow> 'a" where
  "safeDbOperation operation fallback = (case operation of Inr v \<Rightarrow> v | Inl e \<Rightarrow> fallback)"

datatype changeFrequency = daily | weekly | monthly

record sitemap_entry =
  url :: string
  lastModified :: nat
  changeFrequency :: changeFrequency
  priority :: rat

definition baseUrl :: string where
  "baseUrl = ''https://iptv-blogg.site''"

definition staticPages :: "nat \<Rightarrow> sitemap_entry list" where
  "staticPages now =
     [\<lparr>url = baseUrl, lastModified = now, changeFrequency = daily, priority = 1\<rparr>,
      \<lparr>url = baseUrl @ ''/articles'', lastModified = now, changeFrequency = daily,
        priority = fl (9 / 10)\<rparr>]"

definition articlePage :: "row \<Rightarrow> sitemap_entry" where
  "articlePage a = \<lparr>url = baseUrl @ ''/article/'' @ row_slug a, lastModified = row_updatedAt a,
                     changeFrequency = weekly, priority = fl (8 / 10)\<rparr>"

definition categoryPage :: "row \<Rightarrow> sitemap_entry" where
  "categoryPage c = \<lparr>url = baseUrl @ ''/category/'' @ row_slug c, lastModified = row_updatedAt c,
                      changeFrequency = weekly, priority = fl (7 / 10)\<rparr>"

definition customPage :: "row \<Rightarrow> sitemap_entry" where
  "customPage c = \<lparr>url = baseUrl @ ''/pages/'' @ row_slug c, lastModified = row_updatedAt c,
                    changeFrequency = monthly, priority = 1 / 2\<rparr>"

text \<open>
  \<open>sitemap\<close>; \<open>now\<close> is the \<^verbatim>\<open>new Date()\<close> of the two static entries, taken as one
  instant.
\<close>

definition sitemap :: "nat \<Rightarrow> prisma \<Rightarrow> sitemap_entry list" where
  "sitemap now p =
     (let articlePages = map articlePage (safeDbOperation (findPublishedArticles p) []);
          categoryPages = map categoryPage (safeDbOperation (findActiveCategories p) []);
          customPages = map customPage (safeDbOperation (findActivePages p) [])
      in staticPages now @ articlePages @ categoryPages @ customPages)"

text \<open>An example database: two published articles, a draft, an inactive category, a page.\<close>

definition exampleDb :: prisma where
  "exampleDb =
     \<lparr>articles =
        [\<lparr>article_slug = ''first-post'', article_updatedAt = 5, article_status = PUBLISHED\<rparr>,
         \<lparr>article_slug = ''unfinished'', article_updatedAt = 7, article_status = DRAFT\<rparr>,
         \<lparr>article_slug = ''latest-post'', article_updatedAt = 9, article_status = PUBLISHED\<rparr>],
      categories = [\<lparr>category_slug = ''retired'', category_updatedAt = 1, category_isActive = False\<rparr>],
      pages = [\<lparr>page_slug = ''contact'', page_updatedAt = 2, page_isActive = True\<rparr>],
      connected = True\<rparr>"

text \<open>The same tables behind a connection that fails.\<close>

definition unreachableDb :: prisma where
  "unreachableDb = exampleDb\<lparr>connected := False\<rparr>"

section \<open>The upload route\<close>

subsection \<open>Requests, responses and what the handler gets from outside\<close>

datatype json =
    JString string
  | JNumber nat
  | JBool bool
  | JArray "json list"
  | JObject "(string \<times> json) list"

record response =
  res_status :: nat
  res_body :: json

text \<open>\<^verbatim>\<open>NextResponse.json(body, { status })\<close>.\<close>

definition NextResponse_json :: "json \<Rightarrow> nat \<Rightarrow> response" where
  "NextResponse_json body st = \<lparr>res_status = st, res_body = body\<rparr>"

text \<open>
  A form entry is a \<^verbatim>\<open>File\<close> or a string; \<^verbatim>\<open>formData.get\<close> gives \<^verbatim>\<open>null\<close> for a missing
  field. The source casts the entries without a check.
\<close>

record upload_file =
  file_name :: string
  file_type :: string
  file_size :: nat

datatype entry = FileEntry upload_file | TextEntry string

type_synonym form = "string \<Rightarrow> entry option"

text \<open>A thrown value: an \<^verbatim>\<open>Error\<close> with its message, or anything else.\<close>

datatype thrown = JsError string | NonError

record uploadResponse =
  up_url :: string
  up_fileId :: string
  up_name :: string
  up_size :: nat
  up_thumbnailUrl :: string

record uploadRequest =
  fileName :: string
  folder :: string
  useUniqueFileName :: bool
  upload_tags :: "string list"
  customMetadata :: "(string \<times> json) list"

text \<open>
  The world of one request: the ImageKit client (\<^verbatim>\<open>null\<close> when it is not configured)
  with its \<^verbatim>\<open>upload\<close>, the outcome of \<^verbatim>\<open>request.formData()\<close> and of
  \<^verbatim>\<open>file.arrayBuffer()\<close>, the clock (\<^verbatim>\<open>Date.now()\<close> and \<^verbatim>\<open>toISOString()\<close>, one instant for
  the request) and \<^verbatim>\<open>crypto.randomBytes(4).toString('hex')\<close>. The bytes of the file are
  not modelled.
\<close>

record world =
  imagekit :: "(uploadRequest \<Rightarrow> thrown + uploadResponse) option"
  formData :: "thrown + form"
  arrayBuffer :: "thrown + unit"
  dateNow :: nat
  isoString :: string
  randomHex :: string

text \<open>Truthiness of an entry, its text in a template literal and as a JSON value.\<close>

definition truthy :: "entry option \<Rightarrow> bool" where
  "truthy e = (case e of None \<Rightarrow> False | Some (TextEntry s) \<Rightarrow> s \<noteq> [] | Some (FileEntry f) \<Rightarrow> True)"

definition orText :: "entry option \<Rightarrow> string \<Rightarrow> string" where
  "orText e dflt =
     (case e of
        None \<Rightarrow> dflt
      | Some (TextEntry s) \<Rightarrow> (if s = [] then dflt else s)
      | Some (FileEntry f) \<Rightarrow> ''[object File]'')"

definition orJson :: "entry option \<Rightarrow> string \<Rightarrow> json" where
  "orJson e dflt =
     (case e of
        None \<Rightarrow> JString dflt
      | Some (TextEntry s) \<Rightarrow> JString (if s = [] then dflt else s)
      | Some (FileEntry f) \<Rightarrow> JObject [])"

subsection \<open>File names and URLs\<close>

text \<open>
  \<^verbatim>\<open>/\.[^/.]+$/\<close>, \<^verbatim>\<open>/[^a-z0-9\s-]/g\<close>, \<^verbatim>\<open>/-+/g\<close> and \<^verbatim>\<open>/[^a-z0-9]/g\<close>;
  \<^verbatim>\<open>/\s+/g\<close> is \<open>re_spaces\<close>.
\<close>

definition re_extension :: re where
  "re_extension = seqs [lit CHR ''.'', plusRe (noneOf ''/.''), Eol]"

definition re_special :: re where
  "re_special = Chr (\<lambda>c. c \<notin> set (lowerAZ @ digits09 @ ''-'') \<and> \<not> isWhiteSpace c)"

definition re_hyphens :: re where
  "re_hyphens = plusRe (lit CHR ''-'')"

definition re_notAlnum :: re where
  "re_notAlnum = noneOf (lowerAZ @ digits09)"

text \<open>
  \<^verbatim>\<open>context.toLowerCase().replace(/[^a-z0-9]/g, '').substring(0, n)\<close>, for a truthy
  context: a \<^verbatim>\<open>File\<close> has no \<^verbatim>\<open>toLowerCase\<close>, and the call throws a \<^verbatim>\<open>TypeError\<close>.
\<close>

definition contextKey :: "entry option \<Rightarrow> nat \<Rightarrow> thrown + string" where
  "contextKey context n =
     (case context of
        Some (TextEntry s) \<Rightarrow> Inr (take n (replaceAll_re re_notAlnum [] ([], toLowerCase s)))
      | _ \<Rightarrow> Inl (JsError ''context.toLowerCase is not a function''))"

definition generateSEOFilename :: "string \<Rightarrow> entry option \<Rightarrow> nat \<Rightarrow> string \<Rightarrow> thrown + string" where
  "generateSEOFilename originalName context timestamp randomId =
     (let nameWithoutExt = removeFirst_re re_extension ([], originalName);
          cleanName = take 50
            (replaceAll_re re_hyphens ''-'' ([],
               replaceAll_re re_spaces ''-'' ([],
                 replaceAll_re re_special [] ([], toLowerCase nameWithoutExt))))
      in case (if truthy context then map_sum id (\<lambda>k. ''-'' @ k) (contextKey context 20) else Inr [])
         of Inl e \<Rightarrow> Inl e
          | Inr contextPart \<Rightarrow>
              Inr (cleanName @ contextPart @ ''-'' @ showNat timestamp @ ''-'' @ randomId))"

definition generateCacheBustingUrl :: "string \<Rightarrow> nat \<Rightarrow> string" where
  "generateCacheBustingUrl base timestamp =
     base @ (if includesStr base ''?'' then ''&'' else ''?'') @ ''v='' @ showNat timestamp
       @ ''&cache=fresh''"

text \<open>\<^verbatim>\<open>file.name.split('.').pop() || 'jpg'\<close>: what follows the last dot, or the whole name.\<close>

definition fileExtension :: "string \<Rightarrow> string" where
  "fileExtension name =
     (let ext = rev (takeWhile (\<lambda>c. c \<noteq> CHR ''.'') (rev name)) in if ext = [] then ''jpg'' else ext)"

subsection \<open>The handler\<close>

definition allowedTypes :: "string list" where
  "allowedTypes = [''image/jpeg'', ''image/jpg'', ''image/png'', ''image/webp'', ''image/gif'']"

definition maxSize :: nat where
  "maxSize = 10 * 1024 * 1024"

definition errorBody :: "string \<Rightarrow> json" where
  "errorBody msg = JObject [(''error'', JString msg)]"

definition unsplash :: "string \<Rightarrow> nat \<Rightarrow> string" where
  "unsplash params timestamp =
     ''https://images.unsplash.com/photo-1593359677879-a4bb92f829d1?'' @ params @ ''&t=''
       @ showNat timestamp"

text \<open>The body of the answer without ImageKit; a string in the place of the file has no size.\<close>

definition fallbackBody :: "world \<Rightarrow> form \<Rightarrow> json" where
  "fallbackBody w fd =
     (let timestamp = dateNow w;
          fallbackUrl = unsplash ''w=800&h=400&fit=crop&auto=format&q=80'' timestamp;
          thumb = unsplash ''w=150&h=150&fit=crop&auto=format&q=80'' timestamp
      in JObject
        ([(''success'', JBool True),
          (''url'', JString fallbackUrl),
          (''originalUrl'', JString fallbackUrl),
          (''responsiveUrls'', JObject
             [(''thumbnail'', JString thumb),
              (''small'', JString (unsplash ''w=400&h=300&fit=crop&auto=format&q=85'' timestamp)),
              (''medium'', JString (unsplash ''w=800&h=600&fit=crop&auto=format&q=90'' timestamp)),
              (''large'', JString (unsplash ''w=1200&h=900&fit=crop&auto=format&q=95'' timestamp)),
              (''original'', JString fallbackUrl)]),
          (''fileId'', JString (''fallback-'' @ showNat timestamp)),
          (''filename'', JString (''fallback-'' @
             (case fd ''file'' of Some (FileEntry f) \<Rightarrow> file_name f | _ \<Rightarrow> ''undefined''))),
          (''seoFilename'', JString (''iptv-guide-'' @ showNat timestamp @ ''.jpg''))]
         @ (case fd ''file'' of Some (FileEntry f) \<Rightarrow> [(''size'', JNumber (file_size f))] | _ \<Rightarrow> [])
         @ [(''thumbnailUrl'', JString thumb),
            (''altText'', orJson (fd ''altText'')
               (''IPTV related image - '' @ orText (fd ''context'') ''Blog content'')),
            (''description'', JString ''Fallback IPTV image (ImageKit not configured)''),
            (''tags'', JArray [JString ''blog'', JString ''article'', JString ''iptv'', JString ''fallback'']),
            (''uploadedAt'', JString (isoString w)),
            (''cacheVersion'', JNumber timestamp)]))"

definition successBody ::
  "world \<Rightarrow> form \<Rightarrow> string \<Rightarrow> string list \<Rightarrow> uploadResponse \<Rightarrow> json" where
  "successBody w fd finalFilename tgs up =
     (let cacheBustingUrl = generateCacheBustingUrl (up_url up) (dateNow w)
      in JObject
        [(''success'', JBool True),
         (''url'', JString cacheBustingUrl),
         (''originalUrl'', JString (up_url up)),
         (''responsiveUrls'', JObject
            [(''thumbnail'', JString (up_url up @ ''?tr=w-150,h-150,c-maintain_ratio,q-80,f-webp'')),
             (''small'', JString (up_url up @ ''?tr=w-400,h-300,c-maintain_ratio,q-85,f-webp'')),
             (''medium'', JString (up_url up @ ''?tr=w-800,h-600,c-maintain_ratio,q-90,f-webp'')),
             (''large'', JString (up_url up @ ''?tr=w-1200,h-900,c-maintain_ratio,q-95,f-webp'')),
             (''original'', JString cacheBustingUrl)]),
         (''fileId'', JString (up_fileId up)),
         (''filename'', JString (up_name up)),
         (''seoFilename'', JString finalFilename),
         (''size'', JNumber (up_size up)),
         (''thumbnailUrl'', JString (up_thumbnailUrl up)),
         (''altText'', orJson (fd ''altText'')
            (''IPTV related image - '' @ orText (fd ''context'') ''Blog content'')),
         (''description'', orJson (fd ''description'') ''SEO optimized image for IPTV blog''),
         (''tags'', JArray (map JString tgs)),
         (''uploadedAt'', JString (isoString w)),
         (''cacheVersion'', JNumber (dateNow w))])"

text \<open>
  What follows the three validations: the buffer, the file name, the tags, the upload and
  the answer. Each step that can throw is a case.
\<close>

definition processUpload ::
  "world \<Rightarrow> (uploadRequest \<Rightarrow> thrown + uploadResponse) \<Rightarrow> form \<Rightarrow> upload_file \<Rightarrow> thrown + response" where
  "processUpload w upload fd file =
     (case arrayBuffer w of
        Inl e \<Rightarrow> Inl e
      | Inr buffer \<Rightarrow>
     (case generateSEOFilename (file_name file) (fd ''context'') (dateNow w) (randomHex w) of
        Inl e \<Rightarrow> Inl e
      | Inr seoFilename \<Rightarrow>
     (let finalFilename = seoFilename @ ''.'' @ fileExtension (file_name file);
          tags0 = [''blog'', ''article'', ''iptv'', ''seo-optimized'',
                   ''uploaded-'' @ takeWhile (\<lambda>c. c \<noteq> CHR ''T'') (isoString w)]
      in case (if truthy (fd ''context'')
               then map_sum id (\<lambda>k. tags0 @ [''context-'' @ k]) (contextKey (fd ''context'') 15)
               else Inr tags0)
         of Inl e \<Rightarrow> Inl e
          | Inr tgs \<Rightarrow>
     (case upload \<lparr>fileName = finalFilename, folder = ''/blog/articles/optimized'',
                   useUniqueFileName = True, upload_tags = tgs,
                   customMetadata =
                     [(''altText'', orJson (fd ''altText'')
                         (''IPTV related image - '' @ orText (fd ''context'') ''Blog content'')),
                      (''description'', orJson (fd ''description'') ''SEO optimized image for IPTV blog''),
                      (''uploadedAt'', JString (isoString w)),
                      (''context'', orJson (fd ''context'') ''general''),
                      (''seoOptimized'', JString ''true'')]\<rparr> of
        Inl e \<Rightarrow> Inl e
      | Inr uploadResponse \<Rightarrow>
          Inr (NextResponse_json (successBody w fd finalFilename tgs uploadResponse) 200)))))"

text \<open>
  The body of the \<^verbatim>\<open>try\<close> block. \<^verbatim>\<open>!file\<close> holds for a missing field and for an empty
  string; a string that is not empty has no \<^verbatim>\<open>type\<close>, which is not an allowed type.
\<close>

definition POST_try :: "world \<Rightarrow> thrown + response" where
  "POST_try w =
     (case imagekit w of
        None \<Rightarrow>
          (case formData w of
             Inl e \<Rightarrow> Inl e
           | Inr fd \<Rightarrow>
               if \<not> truthy (fd ''file'')
               then Inr (NextResponse_json (errorBody ''No file uploaded'') 400)
               else Inr (NextResponse_json (fallbackBody w fd) 200))
      | Some upload \<Rightarrow>
          (case formData w of
             Inl e \<Rightarrow> Inl e
           | Inr fd \<Rightarrow>
               if \<not> truthy (fd ''file'')
               then Inr (NextResponse_json (errorBody ''No file uploaded'') 400)
               else (case fd ''file'' of
                  Some (FileEntry file) \<Rightarrow>
                    if file_type file \<notin> set allowedTypes
                    then Inr (NextResponse_json
                                (errorBody ''Invalid file type. Only images are allowed.'') 400)
                    else if file_size file > maxSize
                    then Inr (NextResponse_json
                                (errorBody ''File too large. Maximum size is 10MB.'') 400)
                    else processUpload w upload fd file
                | _ \<Rightarrow> Inr (NextResponse_json
                                (errorBody ''Invalid file type. Only images are allowed.'') 400))))"

text \<open>The handler: the \<^verbatim>\<open>try\<close> block and its \<^verbatim>\<open>catch\<close>.\<close>

definition POST :: "world \<Rightarrow> thrown + response" where
  "POST w =
     (case POST_try w of
        Inr resp \<Rightarrow> Inr resp
      | Inl e \<Rightarrow>
          Inr (NextResponse_json
                 (JObject [(''error'', JString ''Failed to upload file to ImageKit''),
                           (''details'', JString (case e of JsError m \<Rightarrow> m | NonError \<Rightarrow> ''Unknown error''))])
                 500))"

subsection \<open>Example requests\<close>

text \<open>
  Requests with ImageKit configured whose form holds the given \<^verbatim>\<open>file\<close> entry and nothing
  else, and whose upload, if it comes to that, is rejected.
\<close>

definition rejectingUpload :: "uploadRequest \<Rightarrow> thrown + uploadResponse" where
  "rejectingUpload req = Inl (JsError ''upload rejected'')"

definition formWith :: "entry option \<Rightarrow> form" where
  "formWith e name = (if name = ''file'' then e else None)"

definition requestWith :: "entry option \<Rightarrow> world" where
  "requestWith e =
     \<lparr>imagekit = Some rejectingUpload, formData = Inr (formWith e), arrayBuffer = Inr (),
      dateNow = 1700000000000, isoString = ''2025-01-02T03:04:05.000Z'', randomHex = ''a1b2c3d4''\<rparr>"

definition brokenRequest :: world where
  "brokenRequest =
     \<lparr>imagekit = Some rejectingUpload, formData = Inl (JsError ''Failed to parse body as FormData.''),
      arrayBuffer = Inr (), dateNow = 1700000000000, isoString = ''2025-01-02T03:04:05.000Z'',
      randomHex = ''a1b2c3d4''\<rparr>"

definition examplePdf :: upload_file where
  "examplePdf = \<lparr>file_name = ''manual.pdf'', file_type = ''application/pdf'', file_size = 20000000\<rparr>"

definition examplePng :: "nat \<Rightarrow> upload_file" where
  "examplePng n = \<lparr>file_name = ''Screen Shot.png'', file_type = ''image/png'', file_size = n\<rparr>"

section \<open>The admin media route\<close>

text \<open>
  The module of the route declares \<^verbatim>\<open>let uploadedFiles: any[] = []\<close>. The variable is not
  exported and lives as long as the server process keeps the module loaded, so the three
  handlers take the state of the module and return it: \<open>GET\<close> reads it in its \<^verbatim>\<open>catch\<close>
  block, \<open>POST\<close> pushes onto it, \<open>DELETE\<close> assigns it.
\<close>

record media_file =
  mf_id :: string
  mf_filename :: string
  mf_originalName :: string
  mf_url :: string
  mf_size :: nat
  mf_mimeType :: string
  mf_uploadedAt :: string
  mf_usedInArticles :: nat
  mf_articleTitles :: "string list"
  mf_articleSlugs :: "string list"


text \<open>A row of \<^verbatim>\<open>prisma.media.findMany\<close> with the title and slug of each article that uses it.\<close>

record media_row =
  med_id :: string
  med_filename :: string
  med_originalName :: string
  med_filePath :: string
  med_fileSize :: nat
  med_mimeType :: string
  med_createdAt :: int
  med_articles :: "(string \<times> string) list"

text \<open>
  What one request gets from outside: the outcome of awaiting the query of \<open>GET\<close>, rows or
  a thrown value (\<^verbatim>\<open>safeDbOperation\<close> and \<^verbatim>\<open>prisma\<close> decide which, and are not part of
  this module); the outcome of \<^verbatim>\<open>request.formData()\<close>; that of \<^verbatim>\<open>file.arrayBuffer()\<close>,
  given as the base64 text of the bytes; the clock, one instant for the request, and
  \<^verbatim>\<open>toISOString\<close>; and \<^verbatim>\<open>searchParams.get('id')\<close>.
\<close>

record media_env =
  env_findMany :: "thrown + media_row list"
  env_formData :: "thrown + form"
  env_arrayBuffer :: "thrown + string"
  env_now :: int
  env_toISOString :: "int \<Rightarrow> string"
  env_id :: "string option"





definition mockData :: "media_env \<Rightarrow> media_file list" where
  "mockData env =
     [\<lparr>mf_id = ''1'', mf_filename = ''iptv-player-comparison.jpg'',
       mf_originalName = ''IPTV Player Comparison.jpg'',
       mf_url = ''https://images.unsplash.com/photo-1593359677879-a4bb92f829d1?w=800&h=400&fit=crop'',
       mf_size = 245760, mf_mimeType = ''image/jpeg'',
       mf_uploadedAt = env_toISOString env (env_now env), mf_usedInArticles = 2,
       mf_articleTitles = [''Best IPTV Players 2024'', ''IPTV Setup Guide''],
       mf_articleSlugs = [''best-iptv-players-2024'', ''iptv-setup-guide'']\<rparr>,
      \<lparr>mf_id = ''2'', mf_filename = ''firestick-iptv-setup.png'',
       mf_originalName = ''Firestick IPTV Setup Guide.png'',
       mf_url = ''https://images.unsplash.com/photo-1574375927938-d5a98e8ffe85?w=800&h=400&fit=crop'',
       mf_size = 189440, mf_mimeType = ''image/png'',
       mf_uploadedAt = env_toISOString env (env_now env - 86400000), mf_usedInArticles = 1,
       mf_articleTitles = [''Firestick IPTV Guide''],
       mf_articleSlugs = [''firestick-iptv-guide'']\<rparr>,
      \<lparr>mf_id = ''3'', mf_filename = ''tivimate-interface.webp'',
       mf_originalName = ''TiviMate Interface Screenshot.webp'',
       mf_url = ''https://images.unsplash.com/photo-1611532736597-de2d4265fba3?w=800&h=400&fit=crop'',
       mf_size = 156320, mf_mimeType = ''image/webp'',
       mf_uploadedAt = env_toISOString env (env_now env - 172800000), mf_usedInArticles = 3,
       mf_articleTitles = [''TiviMate Review'', ''Best IPTV Apps'', ''IPTV Player Comparison''],
       mf_articleSlugs = [''tivimate-review'', ''best-iptv-apps'', ''iptv-player-comparison'']\<rparr>]"







subsection \<open>The server\<close>

text \<open>
  The modelled handlers as the operations of one server process. The framework calls the
  handler of the route; the handlers of the upload route and of the sitemap are in other
  modules, where \<^verbatim>\<open>uploadedFiles\<close> is not in scope.
\<close>

datatype operation =
    SitemapGET nat prisma
  | UploadPOST world
  | MediaGET media_env
  | MediaPOST media_env
  | MediaDELETE media_env



subsection \<open>Example requests\<close>





section \<open>The analysis in the JavaScript runtime\<close>

text \<open>
  \<open>analyzeSEO_on\<close> is a function of its arguments. Whether the source is one depends on
  what it reads and writes besides them. The state a JavaScript function can reach
  without being handed it is modelled here as far as the analysis could touch it: the
  clock that \<^verbatim>\<open>Date.now()\<close> reads, the sequence that \<^verbatim>\<open>Math.random()\<close> draws from, and the
  \<^verbatim>\<open>RegExp\<close> objects with their \<^verbatim>\<open>lastIndex\<close>, which the methods of a regular expression
  read and write. The module of the analysis declares no variable of its own.
\<close>

record regexp_obj =
  rx_source :: re
  rx_global :: bool
  rx_lastIndex :: nat

record runtime =
  rt_clock :: nat
  rt_random :: "nat list"
  rt_regexps :: "regexp_obj list"

definition Date_now :: "runtime \<Rightarrow> nat \<times> runtime" where
  "Date_now rt = (rt_clock rt, rt)"

definition Math_random :: "runtime \<Rightarrow> nat \<times> runtime" where
  "Math_random rt = (hd (rt_random rt), rt\<lparr>rt_random := tl (rt_random rt)\<rparr>)"

text \<open>
  A regular expression literal, and \<^verbatim>\<open>new RegExp\<close>, make a new object each time they are
  evaluated; its address is its place in the list. \<open>flag_g\<close> is the \<^verbatim>\<open>g\<close> flag; the
  \<^verbatim>\<open>i\<close> flag is part of the \<open>re\<close>.
\<close>

definition newRegExp :: "re \<Rightarrow> bool \<Rightarrow> runtime \<Rightarrow> nat \<times> runtime" where
  "newRegExp r flag_g rt =
     (length (rt_regexps rt),
      rt\<lparr>rt_regexps := rt_regexps rt @ [\<lparr>rx_source = r, rx_global = flag_g, rx_lastIndex = 0\<rparr>]\<rparr>)"

definition setLastIndex :: "nat \<Rightarrow> nat \<Rightarrow> runtime \<Rightarrow> runtime" where
  "setLastIndex a i rt =
     rt\<lparr>rt_regexps := (rt_regexps rt)[a := (rt_regexps rt ! a)\<lparr>rx_lastIndex := i\<rparr>]\<rparr>"

definition posAt :: "string \<Rightarrow> nat \<Rightarrow> pos" where
  "posAt s i = (rev (take i s), drop i s)"

text \<open>The leftmost match at or after a position: where it starts and where it ends.\<close>

fun searchRe :: "re \<Rightarrow> pos \<Rightarrow> (pos \<times> pos) option" where
  "searchRe r (b, []) = map_option (\<lambda>q. ((b, []), q)) (firstMatch r (b, []))"
| "searchRe r (b, c # cs) =
     (case firstMatch r (b, c # cs) of
        None \<Rightarrow> searchRe r (c # b, cs)
      | Some q \<Rightarrow> Some ((b, c # cs), q))"

text \<open>
  \<^verbatim>\<open>RegExpBuiltinExec\<close>, the one primitive under \<^verbatim>\<open>exec\<close>, \<^verbatim>\<open>test\<close> and \<^verbatim>\<open>match\<close>: an
  object with the \<^verbatim>\<open>g\<close> flag searches from its \<^verbatim>\<open>lastIndex\<close> and stores where the match
  ended, or 0 when there is none; an object without the flag searches from the start and
  stores nothing.
\<close>

definition regExpExec :: "nat \<Rightarrow> string \<Rightarrow> runtime \<Rightarrow> string option \<times> runtime" where
  "regExpExec a s rt =
     (let obj = rt_regexps rt ! a;
          i = (if rx_global obj then rx_lastIndex obj else 0)
      in case (if i > length s then None else searchRe (rx_source obj) (posAt s i)) of
           None \<Rightarrow> (None, if rx_global obj then setLastIndex a 0 rt else rt)
         | Some (p, q) \<Rightarrow>
             (Some (matched p q),
              if rx_global obj then setLastIndex a (length s - length (snd q)) rt else rt))"

definition regExpTest :: "nat \<Rightarrow> string \<Rightarrow> runtime \<Rightarrow> bool \<times> runtime" where
  "regExpTest a s rt = (let (m, rt') = regExpExec a s rt in (m \<noteq> None, rt'))"

text \<open>
  \<^verbatim>\<open>s.match(rx)\<close>: \<^verbatim>\<open>null\<close> or an array. With the \<^verbatim>\<open>g\<close> flag the method sets
  \<^verbatim>\<open>lastIndex\<close> to 0, collects the matches as \<open>matchAll\<close> does, and the search that finds
  no further match leaves \<^verbatim>\<open>lastIndex\<close> at 0. Without the flag the array holds the one
  match (its groups are not modelled).
\<close>

definition stringMatch :: "nat \<Rightarrow> string \<Rightarrow> runtime \<Rightarrow> string list option \<times> runtime" where
  "stringMatch a s rt =
     (let obj = rt_regexps rt ! a in
      if rx_global obj
      then (let ms = matchAll (rx_source obj) ([], s)
            in (if ms = [] then None else Some ms, setLastIndex a 0 rt))
      else (let (m, rt') = regExpExec a s rt in (map_option (\<lambda>x. [x]) m, rt')))"

text \<open>\<^verbatim>\<open>x || []\<close> for the result of \<^verbatim>\<open>match\<close>.\<close>

definition orEmpty :: "string list option \<Rightarrow> string list" where
  "orEmpty m = (case m of None \<Rightarrow> [] | Some ms \<Rightarrow> ms)"

text \<open>
  \<^verbatim>\<open>s.replace(rx, rep)\<close> for a replacement without \<^verbatim>\<open>$\<close>: all matches and \<^verbatim>\<open>lastIndex\<close>
  back at 0 with the \<^verbatim>\<open>g\<close> flag, the leftmost match without it.
\<close>

fun replaceFirst_re :: "re \<Rightarrow> string \<Rightarrow> pos \<Rightarrow> string" where
  "replaceFirst_re r rep (b, []) = (case firstMatch r (b, []) of None \<Rightarrow> [] | Some q \<Rightarrow> rep)"
| "replaceFirst_re r rep (b, c # cs) =
     (case firstMatch r (b, c # cs) of
        None \<Rightarrow> c # replaceFirst_re r rep (c # b, cs)
      | Some q \<Rightarrow> rep @ snd q)"

definition stringReplace :: "nat \<Rightarrow> string \<Rightarrow> string \<Rightarrow> runtime \<Rightarrow> string \<times> runtime" where
  "stringReplace a rep s rt =
     (let obj = rt_regexps rt ! a in
      if rx_global obj then (replaceAll_re (rx_source obj) rep ([], s), setLastIndex a 0 rt)
      else (replaceFirst_re (rx_source obj) rep ([], s), rt))"

text \<open>
  \<^verbatim>\<open>s.split(rx)\<close> works on a copy of \<^verbatim>\<open>rx\<close> that it makes for itself and that nothing
  can reach afterwards; \<^verbatim>\<open>rx\<close> is left as it was.
\<close>

definition stringSplit :: "nat \<Rightarrow> string \<Rightarrow> runtime \<Rightarrow> string list \<times> runtime" where
  "stringSplit a s rt = (splitRe (rx_source (rt_regexps rt ! a)) s, rt)"

text \<open>
  \<^verbatim>\<open>new RegExp(p, 'g')\<close> for a pattern given as a string: \<open>compile\<close> is the host's reading
  of patterns, which throws or gives the expression; \<open>compilePattern\<close> is the reading of
  the fragment of \<open>parsePattern\<close>. \<open>hostOf\<close> is the count of matches that
  \<open>analyzeSEO_on\<close> takes from its host.
\<close>

definition RegExp_new ::
  "(string \<Rightarrow> exn + re) \<Rightarrow> string \<Rightarrow> bool \<Rightarrow> runtime \<Rightarrow> (exn + nat) \<times> runtime" where
  "RegExp_new compile p flag_g rt =
     (case compile p of
        Inl e \<Rightarrow> (Inl e, rt)
      | Inr r \<Rightarrow> (let (a, rt1) = newRegExp r flag_g rt in (Inr a, rt1)))"

definition compilePattern :: "string \<Rightarrow> exn + re" where
  "compilePattern p = map_sum id seqs (parsePattern p)"

definition hostOf :: "(string \<Rightarrow> exn + re) \<Rightarrow> regexp_host" where
  "hostOf compile p s = map_sum id (\<lambda>r. length (matchAll r ([], s))) (compile p)"

text \<open>
  One runtime is an extension of another: the same clock and random sequence, and the
  same \<^verbatim>\<open>RegExp\<close> objects in the same state, followed by new ones.
\<close>

definition extends :: "runtime \<Rightarrow> runtime \<Rightarrow> bool" where
  "extends rt rt' =
     (rt_clock rt' = rt_clock rt \<and> rt_random rt' = rt_random rt
      \<and> prefix (rt_regexps rt) (rt_regexps rt'))"

subsection \<open>The functions of the analysis, statement by statement\<close>

text \<open>
  Each function takes the runtime and returns the runtime it leaves. A regular
  expression literal is a \<open>newRegExp\<close> where the source has it: in the body of the
  function, or in the callback that a loop runs for each element.
\<close>

definition extractFocusKeyword_rt :: "string \<Rightarrow> string list \<Rightarrow> runtime \<Rightarrow> string \<times> runtime" where
  "extractFocusKeyword_rt title tags rt =
     (let (rx1, rt1) = newRegExp re_punct True rt;
          (cleaned, rt2) = stringReplace rx1 [] (toLowerCase title) rt1;
          (rx2, rt3) = newRegExp re_spaces False rt2;
          (ws, rt4) = stringSplit rx2 cleaned rt3
      in (case filter (\<lambda>word. length word > 2 \<and> word \<notin> set stopWords) ws of
            w0 # w1 # _ \<Rightarrow> w0 @ '' '' @ w1
          | tws \<Rightarrow> (case tags of
                      t # _ \<Rightarrow> toLowerCase t
                    | [] \<Rightarrow> (case tws of w # _ \<Rightarrow> w | [] \<Rightarrow> [])),
          rt4))"

definition countWords_rt :: "string \<Rightarrow> runtime \<Rightarrow> nat \<times> runtime" where
  "countWords_rt text rt =
     (let (rx, rt1) = newRegExp re_spaces False rt;
          (ws, rt2) = stringSplit rx (trim text) rt1
      in (length (filter (\<lambda>word. length word > 0) ws), rt2))"

definition calculateKeywordDensity_rt ::
  "(string \<Rightarrow> exn + re) \<Rightarrow> string \<Rightarrow> string \<Rightarrow> runtime \<Rightarrow> (exn + rat) \<times> runtime" where
  "calculateKeywordDensity_rt compile content kw rt =
     (if kw = [] then (Inr 0, rt)
      else case RegExp_new compile (toLowerCase kw) True rt of
        (Inl e, rt1) \<Rightarrow> (Inl e, rt1)
      | (Inr rx, rt1) \<Rightarrow>
          (let (m, rt2) = stringMatch rx (toLowerCase content) rt1;
               keywordCount = length (orEmpty m);
               (totalWords, rt3) = countWords_rt content rt2
           in (Inr (if totalWords > 0
                    then fl (fl (of_nat keywordCount / of_nat totalWords) * 100) else 0),
               rt3)))"

definition stripTags_rt :: "string \<Rightarrow> runtime \<Rightarrow> string \<times> runtime" where
  "stripTags_rt content rt =
     (let (rx, rt1) = newRegExp re_tag True rt in stringReplace rx [] content rt1)"

definition getFirstParagraph_rt :: "string \<Rightarrow> runtime \<Rightarrow> string \<times> runtime" where
  "getFirstParagraph_rt content rt =
     (let (text, rt1) = stripTags_rt content rt;
          (rx, rt2) = newRegExp re_paragraph False rt1;
          (paragraphs, rt3) = stringSplit rx text rt2
      in (case paragraphs of [] \<Rightarrow> [] | p # _ \<Rightarrow> p, rt3))"

definition getLastParagraph_rt :: "string \<Rightarrow> runtime \<Rightarrow> string \<times> runtime" where
  "getLastParagraph_rt content rt =
     (let (text, rt1) = stripTags_rt content rt;
          (rx, rt2) = newRegExp re_paragraph False rt1;
          (ps, rt3) = stringSplit rx text rt2;
          paragraphs = filter (\<lambda>p. length (trim p) > 0) ps
      in (if paragraphs = [] then [] else last paragraphs, rt3))"

definition countHeadings_rt :: "string \<Rightarrow> runtime \<Rightarrow> (nat \<times> nat \<times> nat) \<times> runtime" where
  "countHeadings_rt content rt =
     (let (rx1, rt1) = newRegExp (re_open ''h1'') True rt;
          (m1, rt2) = stringMatch rx1 content rt1;
          (rx2, rt3) = newRegExp (re_open ''h2'') True rt2;
          (m2, rt4) = stringMatch rx2 content rt3;
          (rx3, rt5) = newRegExp (re_open ''h3'') True rt4;
          (m3, rt6) = stringMatch rx3 content rt5
      in ((length (orEmpty m1), length (orEmpty m2), length (orEmpty m3)), rt6))"

text \<open>The \<^verbatim>\<open>forEach\<close> of \<open>countLinks\<close>: its callback evaluates the literal once for each link.\<close>

fun countLinkLoop_rt :: "string \<Rightarrow> string list \<Rightarrow> nat \<times> nat \<Rightarrow> runtime \<Rightarrow> (nat \<times> nat) \<times> runtime" where
  "countLinkLoop_rt currentDomain [] acc rt = (acc, rt)"
| "countLinkLoop_rt currentDomain (link # ls) acc rt =
     (let (rx, rt1) = newRegExp re_href False rt;
          (hrefMatch, rt2) = stringMatch rx link rt1;
          acc' = (case hrefMatch of
                    None \<Rightarrow> acc
                  | Some ms \<Rightarrow>
                      (let href = butlast (drop 6 (hd ms)) in
                       if startsWith href ''/'' \<or> includesStr href currentDomain
                       then (Suc (fst acc), snd acc)
                       else if startsWith href ''http'' then (fst acc, Suc (snd acc))
                       else acc))
      in countLinkLoop_rt currentDomain ls acc' rt2)"

definition countLinks_rt :: "string \<Rightarrow> string \<Rightarrow> runtime \<Rightarrow> (nat \<times> nat) \<times> runtime" where
  "countLinks_rt content currentDomain rt =
     (let (rx, rt1) = newRegExp re_link True rt;
          (m, rt2) = stringMatch rx content rt1
      in countLinkLoop_rt currentDomain (orEmpty m) (0, 0) rt2)"

text \<open>The \<^verbatim>\<open>filter\<close> of \<open>countImages\<close>, with the literal in its callback.\<close>

fun withAltLoop_rt :: "string list \<Rightarrow> runtime \<Rightarrow> string list \<times> runtime" where
  "withAltLoop_rt [] rt = ([], rt)"
| "withAltLoop_rt (img # imgs) rt =
     (let (rx, rt1) = newRegExp re_alt False rt;
          (ok, rt2) = regExpTest rx img rt1;
          (rest, rt3) = withAltLoop_rt imgs rt2
      in (if ok then img # rest else rest, rt3))"

definition countImages_rt :: "string \<Rightarrow> runtime \<Rightarrow> (nat \<times> nat) \<times> runtime" where
  "countImages_rt content rt =
     (let (rx, rt1) = newRegExp (re_open ''img'') True rt;
          (m, rt2) = stringMatch rx content rt1;
          (kept, rt3) = withAltLoop_rt (orEmpty m) rt2
      in ((length (orEmpty m), length kept), rt3))"

text \<open>The \<^verbatim>\<open>forEach\<close> of \<open>estimateSyllables\<close>.\<close>

fun syllableLoop_rt :: "string list \<Rightarrow> nat \<Rightarrow> runtime \<Rightarrow> nat \<times> runtime" where
  "syllableLoop_rt [] syllables rt = (syllables, rt)"
| "syllableLoop_rt (word # ws) syllables rt =
     (let (rx, rt1) = newRegExp re_vowels True rt;
          (m, rt2) = stringMatch rx word rt1;
          k = (case m of None \<Rightarrow> 1 | Some ms \<Rightarrow> if length ms = 0 then 1 else length ms)
      in syllableLoop_rt ws (syllables + k) rt2)"

definition estimateSyllables_rt :: "string \<Rightarrow> runtime \<Rightarrow> nat \<times> runtime" where
  "estimateSyllables_rt text rt =
     (let (rx, rt1) = newRegExp re_word True rt;
          (m, rt2) = stringMatch rx (toLowerCase text) rt1
      in syllableLoop_rt (orEmpty m) 0 rt2)"

definition calculateReadability_rt :: "string \<Rightarrow> runtime \<Rightarrow> rat \<times> runtime" where
  "calculateReadability_rt content rt =
     (let (text, rt1) = stripTags_rt content rt;
          (rx, rt2) = newRegExp re_sentence False rt1;
          (parts, rt3) = stringSplit rx text rt2;
          sentences = length (filter (\<lambda>s. length (trim s) > 0) parts);
          (words, rt4) = countWords_rt text rt3;
          (syllables, rt5) = estimateSyllables_rt text rt4
      in (if sentences = 0 \<or> words = 0 then 0
          else let sc = fl (fl (fl (206835 / 1000) - fl (fl (1015 / 1000) * fl (of_nat words / of_nat sentences)))
                               - fl (fl (846 / 10) * fl (of_nat syllables / of_nat words)))
               in max 0 (min 100 sc),
          rt5))"

definition slugBlock_rt :: "string \<Rightarrow> runtime \<Rightarrow> (SEOCheck \<times> string list) \<times> runtime" where
  "slugBlock_rt slug rt =
     (if length slug = 0 then
        ((\<lparr>status = Error, val = Str slug, message = ''URL slug is required'', score = 0\<rparr>,
          [''Add a URL slug'']), rt)
      else if length slug > 60 then
        ((\<lparr>status = Warning, val = Str slug,
           message = ''Slug too long. Keep under 60 characters.'', score = 3\<rparr>,
          [''Shorten URL slug'']), rt)
      else
        (let (rx, rt1) = newRegExp re_slug False rt;
             (ok, rt2) = regExpTest rx slug rt1
         in (if \<not> ok then
               (\<lparr>status = Warning, val = Str slug,
                 message = ''Use only lowercase letters, numbers, and hyphens'', score = 3\<rparr>,
                [''Fix URL slug format''])
             else
               (\<lparr>status = Good, val = Str slug, message = ''Good URL slug'', score = 5\<rparr>, []),
             rt2)))"

text \<open>
  \<open>analyzeSEO\<close> in the order of its statements: the measurements first, the keyword's
  two \<^verbatim>\<open>RegExp\<close> among them, then the checks, of which only the slug check has a regular
  expression.
\<close>

definition analyzeSEO_rt ::
  "(string \<Rightarrow> exn + re) \<Rightarrow> string \<Rightarrow> string \<Rightarrow> string \<Rightarrow> string \<Rightarrow> string list \<Rightarrow> runtime
     \<Rightarrow> (exn + SEOAnalysis) \<times> runtime" where
  "analyzeSEO_rt compile title description content slug tags rt =
     (let (focusKeyword, rt1) = extractFocusKeyword_rt title tags rt;
          (wc, rt2) = countWords_rt content rt1
      in case calculateKeywordDensity_rt compile content focusKeyword rt2 of
           (Inl e, rt3) \<Rightarrow> (Inl e, rt3)
         | (Inr keywordDensity, rt3) \<Rightarrow>
       (case RegExp_new compile (toLowerCase focusKeyword) True rt3 of
           (Inl e, rt4) \<Rightarrow> (Inl e, rt4)
         | (Inr rx, rt4) \<Rightarrow>
          (let (m, rt5) = stringMatch rx (toLowerCase content) rt4;
               keywordCount = length (orEmpty m);
               (firstParagraph, rt6) = getFirstParagraph_rt content rt5;
               (lastParagraph, rt7) = getLastParagraph_rt content rt6;
               (hs, rt8) = countHeadings_rt content rt7;
               (ls, rt9) = countLinks_rt content ''iptv-blogg.site'' rt8;
               (im, rt10) = countImages_rt content rt9;
               (rd, rt11) = calculateReadability_rt content rt10;
               (titleCheck, sg1) = titleBlock title;
               (descCheck, sg2) = descBlock description;
               (contentCheck, sg3) = contentBlock wc;
               (kwCheck, sg4) = keywordBlock title focusKeyword firstParagraph lastParagraph
                                  keywordDensity wc keywordCount;
               (headingCheck, sg5) = headingBlock hs;
               (linkCheck, sg6) = linkBlock ls;
               (imageCheck, sg7) = imageBlock im;
               ((slugCheck, sg8), rt12) = slugBlock_rt slug rt11;
               (readabilityCheck, sg9) = readabilityBlock rd;
               totalScore = score titleCheck + score descCheck + score contentCheck + score kwCheck
                            + score headingCheck + score linkCheck + score imageCheck
                            + score slugCheck + score readabilityCheck
           in (Inr \<lparr>overall = totalScore, title_check = titleCheck, description_check = descCheck,
                    content_check = contentCheck, keyword_check = kwCheck,
                    headings_check = headingCheck, links_check = linkCheck,
                    images_check = imageCheck, slug_check = slugCheck,
                    readability_check = readabilityCheck,
                    suggestions = take 5 (sg1 @ sg2 @ sg3 @ sg4 @ sg5 @ sg6 @ sg7 @ sg8 @ sg9)\<rparr>,
               rt12))))"

text \<open>A runtime with no object, for examples.\<close>

definition freshRuntime :: runtime where
  "freshRuntime = \<lparr>rt_clock = 0, rt_random = [], rt_regexps = []\<rparr>"

section \<open>Properties of the SEO analysis\<close>

subsection \<open>The score of each check\<close>

lemma titleBlock_score: "score (fst (titleBlock t)) \<le> 15"
  by (simp add: titleBlock_def Let_def)

lemma descBlock_score: "score (fst (descBlock d)) \<le> 10"
  by (simp add: descBlock_def Let_def)

lemma contentBlock_score: "score (fst (contentBlock n)) \<le> 20"
  by (simp add: contentBlock_def)

lemma keywordBlock_score:
  "score (fst (keywordBlock t k fp lp kd wc kc)) \<le> 20"
  "3 \<le> score (fst (keywordBlock t k fp lp kd wc kc))"
  by (simp_all add: keywordBlock_def Let_def)

lemma headingBlock_score: "score (fst (headingBlock hs)) \<le> 10"
  by (cases hs) (simp add: headingBlock_def Let_def)

lemma linkBlock_score:
  "score (fst (linkBlock ls)) \<le> 10" "5 \<le> score (fst (linkBlock ls))"
  by (cases ls; simp add: linkBlock_def Let_def)+

lemma imageBlock_score:
  "score (fst (imageBlock im)) \<le> 5" "2 \<le> score (fst (imageBlock im))"
  by (cases im; simp add: imageBlock_def Let_def)+

lemma slugBlock_score: "score (fst (slugBlock s)) \<le> 5"
  by (simp add: slugBlock_def)

lemma readabilityBlock_score:
  "score (fst (readabilityBlock x)) \<le> 5" "2 \<le> score (fst (readabilityBlock x))"
  by (simp_all add: readabilityBlock_def)

subsection \<open>The record that is returned\<close>

text \<open>
  When \<open>analyzeSEO_on\<close> returns, both constructions of the keyword's \<^verbatim>\<open>RegExp\<close> have
  succeeded and every field of the record is the result of its block.
\<close>

lemma analyzeSEO_on_fields:
  assumes "analyzeSEO_on host t d c s tags = Inr r"
  shows "\<exists>kd kc.
           calculateKeywordDensity host c (extractFocusKeyword t tags) = Inr kd
         \<and> host (toLowerCase (extractFocusKeyword t tags)) (toLowerCase c) = Inr kc
         \<and> title_check r = fst (titleBlock t)
         \<and> description_check r = fst (descBlock d)
         \<and> content_check r = fst (contentBlock (countWords c))
         \<and> keyword_check r = fst (keywordBlock t (extractFocusKeyword t tags) (getFirstParagraph c)
                                   (getLastParagraph c) kd (countWords c) kc)
         \<and> headings_check r = fst (headingBlock (countHeadings c))
         \<and> links_check r = fst (linkBlock (countLinks c ''iptv-blogg.site''))
         \<and> images_check r = fst (imageBlock (countImages c))
         \<and> slug_check r = fst (slugBlock s)
         \<and> readability_check r = fst (readabilityBlock (calculateReadability c))"
  using assms
  by (auto simp: analyzeSEO_on_def Let_def case_prod_beta split: sum.splits)

lemma analyzeSEO_on_overall:
  assumes "analyzeSEO_on host t d c s tags = Inr r"
  shows "overall r = score (title_check r) + score (description_check r) + score (content_check r)
           + score (keyword_check r) + score (headings_check r) + score (links_check r)
           + score (images_check r) + score (slug_check r) + score (readability_check r)"
  using assms
  by (auto simp: analyzeSEO_on_def Let_def case_prod_beta split: sum.splits)

lemma analyzeSEO_on_suggestions:
  assumes "analyzeSEO_on host t d c s tags = Inr r"
  shows "\<exists>sg. suggestions r = take 5 sg"
  using assms
  by (auto simp: analyzeSEO_on_def Let_def case_prod_beta simp del: take_append split: sum.splits)

text \<open>The article with nothing in it is analysed without an exception.\<close>

lemma analyzeSEO_empty_article: "\<exists>r. analyzeSEO_on RegExp_count [] [] [] [] [] = Inr r"
proof -
  have "\<not> isl (analyzeSEO_on RegExp_count [] [] [] [] [])"
    by code_simp
  then show ?thesis
    by (cases "analyzeSEO_on RegExp_count [] [] [] [] []") auto
qed

text \<open>\<open>analyzeSEO_on\<close> returns as soon as the host accepts the keyword as a pattern.\<close>

lemma analyzeSEO_on_returns:
  assumes "calculateKeywordDensity host c (extractFocusKeyword t tags) = Inr kd"
      and "host (toLowerCase (extractFocusKeyword t tags)) (toLowerCase c) = Inr kc"
  shows "\<exists>r. analyzeSEO_on host t d c s tags = Inr r"
  using assms by (simp add: analyzeSEO_on_def Let_def case_prod_beta)

lemma analyzeSEO_no_keyword: "\<exists>r. analyzeSEO_on RegExp_count [] d c s [] = Inr r"
proof -
  have k: "extractFocusKeyword [] [] = []"
    by code_simp
  have "calculateKeywordDensity RegExp_count c [] = Inr 0"
    by (simp add: calculateKeywordDensity_def)
  moreover have "\<exists>kc. RegExp_count (toLowerCase []) (toLowerCase c) = Inr kc"
    by (simp add: RegExp_count_def toLowerCase_def)
  ultimately show ?thesis
    using analyzeSEO_on_returns[of RegExp_count c "[]" "[]" 0] k by auto
qed

subsection \<open>What the regular expressions of the word count compute\<close>

lemma tokens_Nil [simp]: "tokens [] = []"
  by (simp add: tokens.simps)

lemma tokens_ws [simp]: "isWhiteSpace c \<Longrightarrow> tokens (c # cs) = tokens cs"
  by (subst tokens.simps, subst (2) tokens.simps) simp

lemma tokens_word [simp]:
  "\<not> isWhiteSpace c \<Longrightarrow>
   tokens (c # cs) = (c # takeWhile (\<lambda>x. \<not> isWhiteSpace x) cs)
                     # tokens (dropWhile (\<lambda>x. \<not> isWhiteSpace x) cs)"
  by (subst tokens.simps) simp

lemma tokens_dropWhile [simp]: "tokens (dropWhile isWhiteSpace s) = tokens s"
  by (induction s) auto

lemma tokens_all_ws: "\<forall>c \<in> set w. isWhiteSpace c \<Longrightarrow> tokens w = []"
  by (induction w) auto

text \<open>White space at the end of a text adds no word. Induction on the length of the text.\<close>

lemma tokens_append_ws:
  assumes "\<forall>c \<in> set w. isWhiteSpace c"
  shows "tokens (u @ w) = tokens u"
proof (induction "length u" arbitrary: u rule: less_induct)
  case less
  show ?case
  proof (cases u)
    case Nil
    then show ?thesis using assms by (simp add: tokens_all_ws)
  next
    case (Cons c cs)
    show ?thesis
    proof (cases "isWhiteSpace c")
      case True
      then show ?thesis using less[of cs] Cons by simp
    next
      case False
      let ?Q = "\<lambda>x. \<not> isWhiteSpace x"
      show ?thesis
      proof (cases "\<forall>x \<in> set cs. ?Q x")
        case True
        have tw: "takeWhile ?Q w = []" "dropWhile ?Q w = w"
          using assms by (cases w; simp)+
        from True have a: "takeWhile ?Q (cs @ w) = cs" "dropWhile ?Q (cs @ w) = w"
          by (simp_all add: tw)
        from True have b: "takeWhile ?Q cs = cs" "dropWhile ?Q cs = []"
          by simp_all
        have "tokens (c # cs @ w) = [c # cs]"
          using False assms by (simp add: a tokens_all_ws)
        moreover have "tokens (c # cs) = [c # cs]"
          using False by (simp add: b)
        ultimately show ?thesis using Cons by simp
      next
        case False2: False
        then obtain x where x: "x \<in> set cs" "\<not> ?Q x" by blast
        then have "takeWhile ?Q (cs @ w) = takeWhile ?Q cs"
          "dropWhile ?Q (cs @ w) = dropWhile ?Q cs @ w"
          by (simp_all add: takeWhile_append1 dropWhile_append1)
        moreover have "length (dropWhile ?Q cs) < length u"
          using Cons length_dropWhile_le[of ?Q cs] by simp
        ultimately show ?thesis using False Cons less[of "dropWhile ?Q cs"] by simp
      qed
    qed
  qed
qed

lemma tokens_trim: "tokens (trim s) = tokens s"
proof -
  let ?u = "dropWhile isWhiteSpace s"
  have "?u = rev (dropWhile isWhiteSpace (rev ?u)) @ rev (takeWhile isWhiteSpace (rev ?u))"
    by (metis rev_append rev_rev_ident takeWhile_dropWhile_id)
  moreover have "\<forall>c \<in> set (rev (takeWhile isWhiteSpace (rev ?u))). isWhiteSpace c"
    by (auto dest: set_takeWhileD)
  ultimately have "tokens ?u = tokens (trim s)"
    unfolding trim_def by (metis tokens_append_ws)
  then show ?thesis by simp
qed

text \<open>
  The matcher on a class and on \<open>c+\<close>: a greedy star of a class ends first after the
  longest run of the class.
\<close>

lemma iter_star_chr:
  "length a \<le> n \<Longrightarrow>
   iter True (ends (Chr P)) n (b, a) \<noteq> [] \<and>
   hd (iter True (ends (Chr P)) n (b, a)) = (rev (takeWhile P a) @ b, dropWhile P a)"
proof (induction n arbitrary: a b)
  case 0
  then show ?case by simp
next
  case (Suc n)
  show ?case
  proof (cases a)
    case Nil
    then show ?thesis by simp
  next
    case (Cons c cs)
    with Suc.prems have "length cs \<le> n" by simp
    from Suc.IH[OF this, of "c # b"] Cons show ?thesis by (simp add: Let_def)
  qed
qed

lemma firstMatch_chr:
  "firstMatch (Chr P) (b, c # cs) = (if P c then Some (c # b, cs) else None)"
  by (simp add: firstMatch_def)

lemma firstMatch_plus_chr:
  "firstMatch (plusRe (Chr P)) (b, c # cs) =
     (if P c then Some (rev (takeWhile P cs) @ c # b, dropWhile P cs) else None)"
proof (cases "P c")
  case True
  from iter_star_chr[of cs "length cs" P "c # b"] True show ?thesis
    by (cases "iter True (ends (Chr P)) (length cs) (c # b, cs)")
       (simp_all add: firstMatch_def plusRe_def)
next
  case False
  then show ?thesis by (simp add: firstMatch_def plusRe_def)
qed

lemma firstMatch_plus_chr_Nil: "firstMatch (plusRe (Chr P)) (b, []) = None"
  by (simp add: firstMatch_def plusRe_def)

lemma replaceAll_re_chr: "replaceAll_re (Chr P) [] (b, s) = filter (\<lambda>c. \<not> P c) s"
  by (induction s arbitrary: b) (simp_all add: firstMatch_chr split: option.splits)

text \<open>Splitting at \<^verbatim>\<open>/\s+/\<close> gives the words, and empty fields at the two ends at most.\<close>

lemma splitLoop_spaces:
  "filter (\<lambda>w. w \<noteq> []) (splitLoop re_spaces cur (b, s)) =
     (if cur = [] then tokens s
      else (rev cur @ takeWhile (\<lambda>x. \<not> isWhiteSpace x) s)
           # tokens (dropWhile (\<lambda>x. \<not> isWhiteSpace x) s))"
proof (induction "length s" arbitrary: s cur b rule: less_induct)
  case less
  show ?case
  proof (cases s)
    case Nil
    then show ?thesis by simp
  next
    case (Cons c cs)
    show ?thesis
    proof (cases "isWhiteSpace c")
      case True
      have "length (dropWhile isWhiteSpace cs) < length s"
        using Cons length_dropWhile_le[of isWhiteSpace cs] by simp
      from less[OF this, of "[]"] True Cons show ?thesis
        using length_dropWhile_le[of isWhiteSpace cs]
        by (simp add: re_spaces_def firstMatch_plus_chr less_Suc_eq_le)
    next
      case False
      from less[of cs "c # cur" "c # b"] False Cons show ?thesis
        by (simp add: re_spaces_def firstMatch_plus_chr)
    qed
  qed
qed

lemma splitRe_spaces: "filter (\<lambda>w. w \<noteq> []) (splitRe re_spaces s) = tokens s"
  using splitLoop_spaces[of "[]" "[]" s]
  by (simp add: splitRe_def re_spaces_def firstMatch_plus_chr_Nil)

lemma countWords_tokens: "countWords s = length (tokens s)"
  by (simp add: countWords_def splitRe_spaces tokens_trim)

lemma titleWords_usableWords: "titleWords title = usableWords title"
proof -
  let ?U = "\<lambda>w. length w > 2 \<and> w \<notin> set stopWords"
  have "filter ?U xs = filter ?U (filter (\<lambda>w. w \<noteq> []) xs)" for xs :: "string list"
    by (induction xs) auto
  then have "titleWords title
      = filter ?U (filter (\<lambda>w. w \<noteq> [])
          (splitRe re_spaces (replaceAll_re re_punct [] ([], toLowerCase title))))"
    unfolding titleWords_def by blast
  then show ?thesis
    by (simp add: splitRe_spaces usableWords_def re_punct_def replaceAll_re_chr)
qed

lemma includesStr_sublist: "includesStr s t \<longleftrightarrow> sublist t s"
proof (induction s)
  case Nil
  then show ?case by simp
next
  case (Cons c cs)
  have "startsWith (c # cs) t \<longleftrightarrow> prefix t (c # cs)"
    unfolding startsWith_def
    by (metis append_eq_conv_conj prefix_def take_is_prefix)
  with Cons show ?case by (simp add: sublist_Cons_right)
qed

lemma keywordInText_occursIn: "keywordInText text k \<longleftrightarrow> occursIn k text"
  by (simp add: keywordInText_def occursIn_def includesStr_sublist)

subsection \<open>When the analysis returns\<close>

text \<open>
  A keyword taken from the title is made of word characters and one space, which the
  pattern syntax reads as themselves. So the analysis returns a record whenever the
  keyword does not come from a tag: when there is no tag, or when the title has two usable
  words.
\<close>

lemma parsePattern_plain:
  "\<forall>c \<in> set p. plainChar c \<Longrightarrow> \<exists>rs. parsePattern p = Inr rs"
proof (induction p)
  case Nil
  then show ?case by simp
next
  case (Cons c p)
  from Cons.prems have c: "\<not> isQuantifier c" "\<not> (c \<in> set ''^$()[]{}|'' \<or> c = CHR 0x5C)"
    unfolding plainChar_def by simp_all
  from Cons obtain rs where rs: "parsePattern p = Inr rs" by auto
  show ?case
  proof (cases p)
    case Nil
    show ?thesis unfolding Nil parsePattern.simps using c by (simp only: if_False) simp
  next
    case (Cons q cs)
    with Cons.prems have q: "\<not> isQuantifier q"
      unfolding plainChar_def by simp
    have "parsePattern (c # q # cs) = map_sum id (\<lambda>rs. atomOf c # rs) (parsePattern (q # cs))"
      unfolding parsePattern.simps using c q by (simp only: if_False)
    with rs Cons show ?thesis by simp
  qed
qed

lemma isWordChar_toLowerChar: "isWordChar c \<Longrightarrow> isWordChar (toLowerChar c)"
proof -
  assume w: "isWordChar c"
  show ?thesis
  proof (cases "65 \<le> (of_char c :: nat) \<and> (of_char c :: nat) \<le> 90")
    case True
    then have "(of_char (char_of (of_char c + 32 :: nat)) :: nat) = of_char c + 32"
      by (simp add: of_char_of)
    with True show ?thesis
      by (simp add: isWordChar_def toLowerChar_def Let_def)
  next
    case False
    with w have "toLowerChar c = c"
      by (auto simp: isWordChar_def toLowerChar_def Let_def)
    with w show ?thesis by simp
  qed
qed

lemma isWordChar_plain: "isWordChar c \<Longrightarrow> plainChar c"
  by (auto simp: isWordChar_def plainChar_def isQuantifier_def Let_def)

lemma space_plain: "plainChar (toLowerChar CHR '' '')"
  by (simp add: plainChar_def toLowerChar_def isQuantifier_def)

lemma word_or_space_plain:
  "isWordChar c \<or> c = CHR '' '' \<Longrightarrow> plainChar (toLowerChar c)"
  using isWordChar_plain[OF isWordChar_toLowerChar] space_plain by blast

lemma tokens_chars:
  "w \<in> set (tokens s) \<Longrightarrow> c \<in> set w \<Longrightarrow> c \<in> set s \<and> \<not> isWhiteSpace c"
proof (induction "length s" arbitrary: s rule: less_induct)
  case less
  show ?case
  proof (cases s)
    case Nil
    with less.prems show ?thesis by simp
  next
    case (Cons d ds)
    show ?thesis
    proof (cases "isWhiteSpace d")
      case True
      with less.prems Cons have "w \<in> set (tokens ds)" by simp
      from less.hyps[of ds, OF _ this less.prems(2)] Cons show ?thesis by simp
    next
      case False
      let ?Q = "\<lambda>x. \<not> isWhiteSpace x"
      from False less.prems(1) Cons
      consider "w = d # takeWhile ?Q ds" | "w \<in> set (tokens (dropWhile ?Q ds))"
        by auto
      then show ?thesis
      proof cases
        case 1
        with less.prems(2) have "c = d \<or> c \<in> set (takeWhile ?Q ds)" by simp
        then show ?thesis
          using False Cons by (auto dest: set_takeWhileD)
      next
        case 2
        have "length (dropWhile ?Q ds) < length s"
          using Cons length_dropWhile_le[of ?Q ds] by simp
        from less.hyps[OF this 2 less.prems(2)]
        show ?thesis using Cons by (auto dest: set_dropWhileD)
      qed
    qed
  qed
qed

lemma usableWords_chars:
  assumes "w \<in> set (usableWords t)" "c \<in> set w"
  shows "isWordChar c"
proof -
  from assms(1) have "w \<in> set (tokens (filter (\<lambda>c. isWordChar c \<or> isWhiteSpace c) (toLowerCase t)))"
    by (simp add: usableWords_def)
  from tokens_chars[OF this assms(2)] show ?thesis by auto
qed

lemma title_keyword_plain:
  assumes "tags = [] \<or> 2 \<le> length (usableWords t)"
  shows "\<forall>c \<in> set (toLowerCase (extractFocusKeyword t tags)). plainChar c"
proof -
  have "\<forall>c \<in> set (extractFocusKeyword t tags). isWordChar c \<or> c = CHR '' ''"
  proof (cases "usableWords t")
    case Nil
    with assms show ?thesis by (simp add: extractFocusKeyword_def titleWords_usableWords)
  next
    case (Cons w0 ws)
    note c0 = Cons
    show ?thesis
    proof (cases ws)
      case Nil
      with c0 assms have "extractFocusKeyword t tags = w0"
        by (auto simp: extractFocusKeyword_def titleWords_usableWords)
      with usableWords_chars[of w0 t] c0 show ?thesis by simp
    next
      case (Cons w1 ws')
      with c0 have "extractFocusKeyword t tags = w0 @ '' '' @ w1"
        by (simp add: extractFocusKeyword_def titleWords_usableWords)
      with usableWords_chars[of w0 t] usableWords_chars[of w1 t] c0 Cons show ?thesis by auto
    qed
  qed
  then show ?thesis
    by (auto simp: toLowerCase_def intro: word_or_space_plain)
qed

lemma analyzeSEO_returns_on_title_keyword:
  assumes "tags = [] \<or> 2 \<le> length (usableWords t)"
  shows "\<exists>r. analyzeSEO_on RegExp_count t d c s tags = Inr r"
proof -
  from parsePattern_plain[OF title_keyword_plain[OF assms]]
  obtain rs where p: "parsePattern (toLowerCase (extractFocusKeyword t tags)) = Inr rs"
    by blast
  then have h: "\<exists>kc. RegExp_count (toLowerCase (extractFocusKeyword t tags)) (toLowerCase c) = Inr kc"
    by (simp add: RegExp_count_def)
  then have "\<exists>kd. calculateKeywordDensity RegExp_count c (extractFocusKeyword t tags) = Inr kd"
    by (auto simp: calculateKeywordDensity_def Let_def)
  with h show ?thesis
    using analyzeSEO_on_returns by blast
qed

section \<open>The analysis leaves the runtime as it found it\<close>

lemma extends_refl: "extends rt rt"
  by (simp add: extends_def)

lemma extends_trans: "extends rt0 rt1 \<Longrightarrow> extends rt1 rt2 \<Longrightarrow> extends rt0 rt2"
  by (auto simp add: extends_def)

lemma extends_newRegExp: "extends rt0 rt \<Longrightarrow> extends rt0 (snd (newRegExp r g rt))"
  by (auto simp add: extends_def newRegExp_def prefix_def)

lemma setLastIndex_fresh:
  "setLastIndex (fst (newRegExp r g rt)) 0 (snd (newRegExp r g rt)) = snd (newRegExp r g rt)"
  by (simp add: setLastIndex_def newRegExp_def)

lemma nth_fresh:
  "rt_regexps (snd (newRegExp r g rt)) ! fst (newRegExp r g rt)
     = \<lparr>rx_source = r, rx_global = g, rx_lastIndex = 0\<rparr>"
  by (simp add: newRegExp_def)

lemma searchRe_execRe: "map_option (\<lambda>(p, q). matched p q) (searchRe r p) = execRe r p"
proof (induction r p rule: searchRe.induct)
  case (1 r b)
  then show ?case by (cases "firstMatch r (b, [])") (simp_all add: matched_def)
next
  case (2 r b c cs)
  then show ?case by (cases "firstMatch r (b, c # cs)") simp_all
qed

lemma regExpExec_fresh:
  "regExpExec (fst (newRegExp r False rt)) s (snd (newRegExp r False rt))
     = (execRe r ([], s), snd (newRegExp r False rt))"
proof -
  have "execRe r ([], s) = map_option (\<lambda>(p, q). matched p q) (searchRe r ([], s))"
    by (simp add: searchRe_execRe)
  then show ?thesis
    by (cases "searchRe r ([], s)") (auto simp add: regExpExec_def nth_fresh posAt_def)
qed

lemma regExpTest_fresh:
  "regExpTest (fst (newRegExp r False rt)) s (snd (newRegExp r False rt))
     = (testRe r s, snd (newRegExp r False rt))"
  by (simp add: regExpTest_def regExpExec_fresh testRe_def)

lemma stringMatch_fresh:
  "stringMatch (fst (newRegExp r False rt)) s (snd (newRegExp r False rt))
     = (map_option (\<lambda>x. [x]) (execRe r ([], s)), snd (newRegExp r False rt))"
  by (simp add: stringMatch_def nth_fresh regExpExec_fresh)

lemma stringMatch_fresh_g:
  "stringMatch (fst (newRegExp r True rt)) s (snd (newRegExp r True rt))
     = (if matchAll r ([], s) = [] then None else Some (matchAll r ([], s)),
        snd (newRegExp r True rt))"
  by (simp add: stringMatch_def nth_fresh setLastIndex_fresh Let_def)

lemma orEmpty_matches: "orEmpty (if ms = [] then None else Some ms) = ms"
  by (simp add: orEmpty_def)

lemma stringReplace_fresh_g:
  "stringReplace (fst (newRegExp r True rt)) rep s (snd (newRegExp r True rt))
     = (replaceAll_re r rep ([], s), snd (newRegExp r True rt))"
  by (simp add: stringReplace_def nth_fresh setLastIndex_fresh)

lemma stringSplit_fresh:
  "stringSplit (fst (newRegExp r g rt)) s (snd (newRegExp r g rt))
     = (splitRe r s, snd (newRegExp r g rt))"
  by (simp add: stringSplit_def nth_fresh)

lemmas fresh_simps =
  regExpTest_fresh stringMatch_fresh stringMatch_fresh_g orEmpty_matches
  stringReplace_fresh_g stringSplit_fresh split_beta Let_def

lemma extractFocusKeyword_rt_fst:
  "fst (extractFocusKeyword_rt title tags rt) = extractFocusKeyword title tags"
  by (simp add: extractFocusKeyword_rt_def extractFocusKeyword_def titleWords_def fresh_simps)

lemma extractFocusKeyword_rt_extends:
  "extends rt0 rt \<Longrightarrow> extends rt0 (snd (extractFocusKeyword_rt title tags rt))"
  by (simp add: extractFocusKeyword_rt_def fresh_simps extends_newRegExp)

lemma countWords_rt_fst: "fst (countWords_rt text rt) = countWords text"
  by (simp add: countWords_rt_def countWords_def fresh_simps)

lemma countWords_rt_extends: "extends rt0 rt \<Longrightarrow> extends rt0 (snd (countWords_rt text rt))"
  by (simp add: countWords_rt_def fresh_simps extends_newRegExp)

lemma RegExp_new_throws: "compile p = Inl e \<Longrightarrow> RegExp_new compile p g rt = (Inl e, rt)"
  by (simp add: RegExp_new_def)

lemma RegExp_new_returns:
  "compile p = Inr r \<Longrightarrow>
   RegExp_new compile p g rt = (Inr (fst (newRegExp r g rt)), snd (newRegExp r g rt))"
  by (simp add: RegExp_new_def split_beta)

lemma calculateKeywordDensity_rt_fst:
  "fst (calculateKeywordDensity_rt compile content kw rt)
     = calculateKeywordDensity (hostOf compile) content kw"
proof (cases "compile (toLowerCase kw)")
  case (Inl e)
  then show ?thesis
    by (simp add: calculateKeywordDensity_rt_def calculateKeywordDensity_def hostOf_def
        RegExp_new_throws)
next
  case (Inr r)
  then show ?thesis
    by (simp add: calculateKeywordDensity_rt_def calculateKeywordDensity_def hostOf_def
        RegExp_new_returns fresh_simps countWords_rt_fst)
qed

lemma calculateKeywordDensity_rt_extends:
  "extends rt0 rt \<Longrightarrow> extends rt0 (snd (calculateKeywordDensity_rt compile content kw rt))"
proof (cases "compile (toLowerCase kw)")
  case (Inl e)
  assume "extends rt0 rt"
  with Inl show ?thesis
    by (simp add: calculateKeywordDensity_rt_def RegExp_new_throws)
next
  case (Inr r)
  assume "extends rt0 rt"
  with Inr show ?thesis
    by (simp add: calculateKeywordDensity_rt_def RegExp_new_returns fresh_simps
        countWords_rt_extends extends_newRegExp)
qed

lemma stripTags_rt_fst: "fst (stripTags_rt content rt) = stripTags content"
  by (simp add: stripTags_rt_def stripTags_def fresh_simps)

lemma stripTags_rt_extends: "extends rt0 rt \<Longrightarrow> extends rt0 (snd (stripTags_rt content rt))"
  by (simp add: stripTags_rt_def fresh_simps extends_newRegExp)

lemma getFirstParagraph_rt_fst: "fst (getFirstParagraph_rt content rt) = getFirstParagraph content"
  by (simp add: getFirstParagraph_rt_def getFirstParagraph_def fresh_simps stripTags_rt_fst)

lemma getFirstParagraph_rt_extends:
  "extends rt0 rt \<Longrightarrow> extends rt0 (snd (getFirstParagraph_rt content rt))"
  by (simp add: getFirstParagraph_rt_def fresh_simps stripTags_rt_extends extends_newRegExp)

lemma getLastParagraph_rt_fst: "fst (getLastParagraph_rt content rt) = getLastParagraph content"
  by (simp add: getLastParagraph_rt_def getLastParagraph_def fresh_simps stripTags_rt_fst)

lemma getLastParagraph_rt_extends:
  "extends rt0 rt \<Longrightarrow> extends rt0 (snd (getLastParagraph_rt content rt))"
  by (simp add: getLastParagraph_rt_def fresh_simps stripTags_rt_extends extends_newRegExp)

lemma countHeadings_rt_fst: "fst (countHeadings_rt content rt) = countHeadings content"
  by (simp add: countHeadings_rt_def countHeadings_def fresh_simps)

lemma countHeadings_rt_extends:
  "extends rt0 rt \<Longrightarrow> extends rt0 (snd (countHeadings_rt content rt))"
  by (simp add: countHeadings_rt_def fresh_simps extends_newRegExp)

lemma countLinkLoop_rt_fst:
  "fst (countLinkLoop_rt d ls acc rt) = fold (countLink d) ls acc"
proof (induction ls arbitrary: acc rt)
  case Nil
  then show ?case by simp
next
  case (Cons link ls)
  show ?case
    by (cases "execRe re_href ([], link)") (simp_all add: fresh_simps Cons countLink_def)
qed

lemma countLinkLoop_rt_extends:
  "extends rt0 rt \<Longrightarrow> extends rt0 (snd (countLinkLoop_rt d ls acc rt))"
proof (induction ls arbitrary: acc rt)
  case Nil
  then show ?case by simp
next
  case (Cons link ls)
  then show ?case by (simp add: fresh_simps extends_newRegExp)
qed

lemma countLinks_rt_fst: "fst (countLinks_rt content d rt) = countLinks content d"
  by (simp add: countLinks_rt_def countLinks_def fresh_simps countLinkLoop_rt_fst)

lemma countLinks_rt_extends:
  "extends rt0 rt \<Longrightarrow> extends rt0 (snd (countLinks_rt content d rt))"
  by (simp add: countLinks_rt_def fresh_simps countLinkLoop_rt_extends extends_newRegExp)

lemma withAltLoop_rt_fst: "fst (withAltLoop_rt imgs rt) = filter (testRe re_alt) imgs"
  by (induction imgs arbitrary: rt) (simp_all add: fresh_simps)

lemma withAltLoop_rt_extends:
  "extends rt0 rt \<Longrightarrow> extends rt0 (snd (withAltLoop_rt imgs rt))"
  by (induction imgs arbitrary: rt) (simp_all add: fresh_simps extends_newRegExp)

lemma countImages_rt_fst: "fst (countImages_rt content rt) = countImages content"
  by (simp add: countImages_rt_def countImages_def fresh_simps withAltLoop_rt_fst)

lemma countImages_rt_extends:
  "extends rt0 rt \<Longrightarrow> extends rt0 (snd (countImages_rt content rt))"
  by (simp add: countImages_rt_def fresh_simps withAltLoop_rt_extends extends_newRegExp)

lemma syllableLoop_rt_fst:
  "fst (syllableLoop_rt ws n rt)
     = n + sum_list (map (\<lambda>word. let k = length (matchAll re_vowels ([], word))
                                  in if k = 0 then 1 else k) ws)"
  by (induction ws arbitrary: n rt) (simp_all add: fresh_simps)

lemma syllableLoop_rt_extends:
  "extends rt0 rt \<Longrightarrow> extends rt0 (snd (syllableLoop_rt ws n rt))"
  by (induction ws arbitrary: n rt) (simp_all add: fresh_simps extends_newRegExp)

lemma estimateSyllables_rt_fst: "fst (estimateSyllables_rt text rt) = estimateSyllables text"
  by (simp add: estimateSyllables_rt_def estimateSyllables_def fresh_simps syllableLoop_rt_fst)

lemma estimateSyllables_rt_extends:
  "extends rt0 rt \<Longrightarrow> extends rt0 (snd (estimateSyllables_rt text rt))"
  by (simp add: estimateSyllables_rt_def fresh_simps syllableLoop_rt_extends extends_newRegExp)

lemma calculateReadability_rt_fst:
  "fst (calculateReadability_rt content rt) = calculateReadability content"
  by (simp add: calculateReadability_rt_def calculateReadability_def fresh_simps stripTags_rt_fst
      countWords_rt_fst estimateSyllables_rt_fst)

lemma calculateReadability_rt_extends:
  "extends rt0 rt \<Longrightarrow> extends rt0 (snd (calculateReadability_rt content rt))"
  by (simp add: calculateReadability_rt_def fresh_simps stripTags_rt_extends countWords_rt_extends
      estimateSyllables_rt_extends extends_newRegExp)

lemma slugBlock_rt_fst: "fst (slugBlock_rt slug rt) = slugBlock slug"
  by (simp add: slugBlock_rt_def slugBlock_def fresh_simps)

lemma slugBlock_rt_extends: "extends rt0 rt \<Longrightarrow> extends rt0 (snd (slugBlock_rt slug rt))"
  by (simp add: slugBlock_rt_def fresh_simps extends_newRegExp)

lemmas rt_fst =
  extractFocusKeyword_rt_fst countWords_rt_fst calculateKeywordDensity_rt_fst
  getFirstParagraph_rt_fst getLastParagraph_rt_fst countHeadings_rt_fst countLinks_rt_fst
  countImages_rt_fst calculateReadability_rt_fst slugBlock_rt_fst

lemmas rt_extends =
  extractFocusKeyword_rt_extends countWords_rt_extends calculateKeywordDensity_rt_extends
  getFirstParagraph_rt_extends getLastParagraph_rt_extends countHeadings_rt_extends
  countLinks_rt_extends countImages_rt_extends calculateReadability_rt_extends
  slugBlock_rt_extends extends_newRegExp

lemma analyzeSEO_rt_fst:
  "fst (analyzeSEO_rt compile title description content slug tags rt)
     = analyzeSEO_on (hostOf compile) title description content slug tags"
proof (cases "calculateKeywordDensity (hostOf compile) content (extractFocusKeyword title tags)")
  case (Inl e)
  then show ?thesis
    by (simp add: analyzeSEO_rt_def analyzeSEO_on_def split_beta Let_def rt_fst)
next
  case kd: (Inr k)
  show ?thesis
  proof (cases "compile (toLowerCase (extractFocusKeyword title tags))")
    case (Inl e)
    with kd show ?thesis
      by (simp add: analyzeSEO_rt_def analyzeSEO_on_def split_beta Let_def rt_fst hostOf_def
          RegExp_new_throws)
  next
    case (Inr r)
    with kd show ?thesis
      by (simp add: analyzeSEO_rt_def analyzeSEO_on_def rt_fst hostOf_def
          RegExp_new_returns fresh_simps)
  qed
qed

lemma analyzeSEO_rt_extends:
  "extends rt (snd (analyzeSEO_rt compile title description content slug tags rt))"
proof (cases "fst (calculateKeywordDensity_rt compile content (extractFocusKeyword title tags)
                     (snd (countWords_rt content (snd (extractFocusKeyword_rt title tags rt)))))")
  case (Inl e)
  then show ?thesis
    by (simp add: analyzeSEO_rt_def split_beta Let_def extractFocusKeyword_rt_fst rt_extends
        extends_refl)
next
  case kd: (Inr k)
  show ?thesis
  proof (cases "compile (toLowerCase (extractFocusKeyword title tags))")
    case (Inl e)
    with kd show ?thesis
      by (simp add: analyzeSEO_rt_def split_beta Let_def extractFocusKeyword_rt_fst
          RegExp_new_throws rt_extends extends_refl)
  next
    case (Inr r)
    with kd show ?thesis
      by (simp add: analyzeSEO_rt_def extractFocusKeyword_rt_fst RegExp_new_returns fresh_simps
          rt_extends extends_refl)
  qed
qed

lemma hostOf_compilePattern: "hostOf compilePattern p s = RegExp_count p s"
  by (cases "parsePattern p") (simp_all add: hostOf_def compilePattern_def RegExp_count_def)

lemma analyzeSEO_rt_compilePattern:
  "fst (analyzeSEO_rt compilePattern title description content slug tags rt)
     = analyzeSEO title description content slug tags"
proof -
  have "hostOf compilePattern = RegExp_count"
    by (intro ext) (rule hostOf_compilePattern)
  then show ?thesis
    by (simp add: analyzeSEO_rt_fst analyzeSEO_def)
qed

text \<open>
  The runtime of the model is one in which a function can fail to be a function of its
  arguments: the clock and the random sequence answer what the runtime holds, and a
  regular expression with the
  \<^verbatim>\<open>g\<close> flag that is kept between two calls of \<^verbatim>\<open>test\<close> answers the second call from
  where the first one stopped.
\<close>

lemma Date_now_reads_the_clock: "fst (Date_now (rt\<lparr>rt_clock := t\<rparr>)) = t"
  by (simp add: Date_now_def)

lemma Math_random_draws: "fst (Math_random (rt\<lparr>rt_random := x # xs\<rparr>)) = x"
  by (simp add: Math_random_def)

lemma kept_global_regexp_remembers:
  "(let (rx, rt1) = newRegExp (lit (CHR ''a'')) True freshRuntime;
        (first, rt2) = regExpTest rx ''a'' rt1;
        (second, rt3) = regExpTest rx ''a'' rt2
    in (first, second)) = (True, False)"
  by code_simp

section \<open>The state of the media route\<close>









lemma length_mockData: "length (mockData env) = 3"
  by (simp add: mockData_def)





subsection \<open>The overall score\<close>

text \<open>
  C1. Whenever \<open>analyzeSEO\<close> returns, the overall score is the sum of the scores of the
  nine checks, and each check stays within its weight: title 15, description 10,
  content 20, keyword 20, headings 10, links 10, images 5, slug 5, readability 5. The
  overall score is therefore at most 100, and the two groups of the score breakdown of
  \<^verbatim>\<open>SEOAnalyzer\<close>, structure (headings, links, images) and technical (slug, readability),
  are at most 25 and 10. This holds whatever the host's regular expressions make of the
  keyword.
\<close>

theorem analyzeSEO_score_sum_of_weighted_checks:
  assumes "analyzeSEO_on host title description content slug tags = Inr r"
  shows "overall r = score (title_check r) + score (description_check r) + score (content_check r)
           + score (keyword_check r) + score (headings_check r) + score (links_check r)
           + score (images_check r) + score (slug_check r) + score (readability_check r)
       \<and> score (title_check r) \<le> 15 \<and> score (description_check r) \<le> 10
       \<and> score (content_check r) \<le> 20 \<and> score (keyword_check r) \<le> 20
       \<and> score (headings_check r) \<le> 10 \<and> score (links_check r) \<le> 10
       \<and> score (images_check r) \<le> 5 \<and> score (slug_check r) \<le> 5
       \<and> score (readability_check r) \<le> 5 \<and> overall r \<le> 100
       \<and> score (headings_check r) + score (links_check r) + score (images_check r) \<le> 25
       \<and> score (slug_check r) + score (readability_check r) \<le> 10"
proof -
  from analyzeSEO_on_fields[OF assms] obtain kd kc where
    f: "title_check r = fst (titleBlock title)"
       "description_check r = fst (descBlock description)"
       "content_check r = fst (contentBlock (countWords content))"
       "keyword_check r = fst (keywordBlock title (extractFocusKeyword title tags)
          (getFirstParagraph content) (getLastParagraph content) kd (countWords content) kc)"
       "headings_check r = fst (headingBlock (countHeadings content))"
       "links_check r = fst (linkBlock (countLinks content ''iptv-blogg.site''))"
       "images_check r = fst (imageBlock (countImages content))"
       "slug_check r = fst (slugBlock slug)"
       "readability_check r = fst (readabilityBlock (calculateReadability content))"
    by blast
  have b: "score (title_check r) \<le> 15" "score (description_check r) \<le> 10"
    "score (content_check r) \<le> 20" "score (keyword_check r) \<le> 20"
    "score (headings_check r) \<le> 10" "score (links_check r) \<le> 10"
    "score (images_check r) \<le> 5" "score (slug_check r) \<le> 5"
    "score (readability_check r) \<le> 5"
    unfolding f
    by (rule titleBlock_score descBlock_score contentBlock_score keywordBlock_score(1)
        headingBlock_score linkBlock_score(1) imageBlock_score(1) slugBlock_score
        readabilityBlock_score(1))+
  note s = analyzeSEO_on_overall[OF assms]
  have "overall r \<le> 100" using b unfolding s by linarith
  moreover have "score (headings_check r) + score (links_check r) + score (images_check r) \<le> 25"
    "score (slug_check r) + score (readability_check r) \<le> 10"
    using b by linarith+
  ultimately show ?thesis using s b by blast
qed

theorem analyzeSEO_score_sum_of_weighted_checks_witness:
  "\<exists>r. analyzeSEO_on RegExp_count [] [] [] [] [] = Inr r
     \<and> overall r = score (title_check r) + score (description_check r) + score (content_check r)
           + score (keyword_check r) + score (headings_check r) + score (links_check r)
           + score (images_check r) + score (slug_check r) + score (readability_check r)
     \<and> score (title_check r) \<le> 15 \<and> score (description_check r) \<le> 10
     \<and> score (content_check r) \<le> 20 \<and> score (keyword_check r) \<le> 20
     \<and> score (headings_check r) \<le> 10 \<and> score (links_check r) \<le> 10
     \<and> score (images_check r) \<le> 5 \<and> score (slug_check r) \<le> 5
     \<and> score (readability_check r) \<le> 5 \<and> overall r \<le> 100
     \<and> score (headings_check r) + score (links_check r) + score (images_check r) \<le> 25
     \<and> score (slug_check r) + score (readability_check r) \<le> 10"
proof -
  from analyzeSEO_empty_article obtain r where
    h: "analyzeSEO_on RegExp_count [] [] [] [] [] = Inr r" by blast
  from h analyzeSEO_score_sum_of_weighted_checks[OF h] show ?thesis by blast
qed

text \<open>
  C7. Whenever \<open>analyzeSEO\<close> returns, the overall score lies between 12 and 100: the
  links check gives at least 5 points, the keyword check at least 3, the images check at
  least 2 and the readability check at least 2, so the score is never 0.
\<close>

theorem analyzeSEO_score_between_12_and_100:
  assumes "analyzeSEO_on host title description content slug tags = Inr r"
  shows "12 \<le> overall r \<and> overall r \<le> 100 \<and> overall r \<noteq> 0
       \<and> 5 \<le> score (links_check r) \<and> 3 \<le> score (keyword_check r)
       \<and> 2 \<le> score (images_check r) \<and> 2 \<le> score (readability_check r)"
proof -
  from analyzeSEO_on_fields[OF assms] obtain kd kc where
    f: "title_check r = fst (titleBlock title)"
       "description_check r = fst (descBlock description)"
       "content_check r = fst (contentBlock (countWords content))"
       "keyword_check r = fst (keywordBlock title (extractFocusKeyword title tags)
          (getFirstParagraph content) (getLastParagraph content) kd (countWords content) kc)"
       "headings_check r = fst (headingBlock (countHeadings content))"
       "links_check r = fst (linkBlock (countLinks content ''iptv-blogg.site''))"
       "images_check r = fst (imageBlock (countImages content))"
       "slug_check r = fst (slugBlock slug)"
       "readability_check r = fst (readabilityBlock (calculateReadability content))"
    by blast
  have up: "score (title_check r) \<le> 15" "score (description_check r) \<le> 10"
    "score (content_check r) \<le> 20" "score (keyword_check r) \<le> 20"
    "score (headings_check r) \<le> 10" "score (links_check r) \<le> 10"
    "score (images_check r) \<le> 5" "score (slug_check r) \<le> 5"
    "score (readability_check r) \<le> 5"
    unfolding f
    by (rule titleBlock_score descBlock_score contentBlock_score keywordBlock_score(1)
        headingBlock_score linkBlock_score(1) imageBlock_score(1) slugBlock_score
        readabilityBlock_score(1))+
  have lo: "5 \<le> score (links_check r)" "3 \<le> score (keyword_check r)"
    "2 \<le> score (images_check r)" "2 \<le> score (readability_check r)"
    unfolding f
    by (rule linkBlock_score(2) keywordBlock_score(2) imageBlock_score(2)
        readabilityBlock_score(2))+
  note s = analyzeSEO_on_overall[OF assms]
  have "12 \<le> overall r" "overall r \<le> 100" using up lo unfolding s by linarith+
  with lo show ?thesis by simp
qed

theorem analyzeSEO_score_between_12_and_100_witness:
  "\<exists>r. analyzeSEO_on RegExp_count [] [] [] [] [] = Inr r \<and> overall r = 12
     \<and> 12 \<le> overall r \<and> overall r \<le> 100 \<and> overall r \<noteq> 0
     \<and> 5 \<le> score (links_check r) \<and> 3 \<le> score (keyword_check r)
     \<and> 2 \<le> score (images_check r) \<and> 2 \<le> score (readability_check r)"
proof -
  from analyzeSEO_empty_article obtain r where
    h: "analyzeSEO_on RegExp_count [] [] [] [] [] = Inr r" by blast
  have "overall (projr (analyzeSEO_on RegExp_count [] [] [] [] [])) = 12"
    by code_simp
  with h have "overall r = 12" by simp
  with h analyzeSEO_score_between_12_and_100[OF h] show ?thesis by blast
qed

subsection \<open>The suggestions\<close>

text \<open>
  C8. Whenever \<open>analyzeSEO\<close> returns, the list of suggestions in the record has at most
  five entries, however many checks pushed one.
\<close>

theorem analyzeSEO_at_most_five_suggestions:
  assumes "analyzeSEO_on host title description content slug tags = Inr r"
  shows "length (suggestions r) \<le> 5"
proof -
  from analyzeSEO_on_suggestions[OF assms] obtain sg where "suggestions r = take 5 sg"
    by blast
  then show ?thesis by simp
qed

theorem analyzeSEO_at_most_five_suggestions_witness:
  "\<exists>r. analyzeSEO_on RegExp_count [] [] [] [] [] = Inr r \<and> length (suggestions r) = 5
     \<and> length (suggestions r) \<le> 5"
proof -
  from analyzeSEO_empty_article obtain r where
    h: "analyzeSEO_on RegExp_count [] [] [] [] [] = Inr r" by blast
  have "length (suggestions (projr (analyzeSEO_on RegExp_count [] [] [] [] []))) = 5"
    by code_simp
  with h have "length (suggestions r) = 5" by simp
  with h analyzeSEO_at_most_five_suggestions[OF h] show ?thesis by blast
qed

subsection \<open>Exceptions\<close>

text \<open>
  C2. \<open>analyzeSEO\<close> is to return a record for all strings and tags, also when the
  keyword falls back to the first tag. It throws when that tag is not a pattern: the
  title \<^verbatim>\<open>C++\<close> has no usable word, the keyword is the tag \<^verbatim>\<open>c++\<close>, and
  \<^verbatim>\<open>new RegExp('c++', 'g')\<close> throws a \<^verbatim>\<open>SyntaxError\<close> (nothing to repeat), which
  \<open>calculateKeywordDensity\<close> does not catch. \<open>keywordInText\<close> looks for the same
  keyword with \<^verbatim>\<open>includes\<close> and cannot throw. Without a tag the analysis always returns
  (\<open>analyzeSEO_returns_on_title_keyword\<close>).
\<close>

theorem analyzeSEO_throws_on_tag_keyword:
  "analyzeSEO ''C++'' ''An introduction'' ''C++ is a language.'' ''cpp-intro'' [''C++'']
     = Inl SyntaxError"
  by code_simp

subsection \<open>Determinism\<close>

text \<open>
  C3. \<open>analyzeSEO\<close> is deterministic and pure. \<open>analyzeSEO_rt\<close> is the source run in a
  runtime that holds a clock, a random sequence and \<^verbatim>\<open>RegExp\<close> objects with their
  \<^verbatim>\<open>lastIndex\<close>, each regular expression of the source an object made where the source
  makes it. Whatever the runtime holds when the call starts, also what an earlier call
  has left in it, the call returns the same result, record or exception, for the same
  title, description, content, slug and tags: the result is that of \<open>analyzeSEO_on\<close>, in
  which there is no runtime. The call leaves the clock, the random sequence and every
  object that was there as they were; what it adds are the objects of its own literals,
  which nothing refers to once it has returned.
\<close>

theorem analyzeSEO_reads_and_writes_no_state:
  "fst (analyzeSEO_rt compile title description content slug tags rt)
     = fst (analyzeSEO_rt compile title description content slug tags rt')
   \<and> fst (analyzeSEO_rt compile title description content slug tags rt)
     = analyzeSEO_on (hostOf compile) title description content slug tags
   \<and> extends rt (snd (analyzeSEO_rt compile title description content slug tags rt))"
  by (simp add: analyzeSEO_rt_fst analyzeSEO_rt_extends)

subsection \<open>The content check\<close>

text \<open>
  C5. Whenever \<open>analyzeSEO\<close> returns, the content check depends on the content only
  through its word count, the number of maximal runs of non-white-space characters: no
  word gives score 0 and status error, 1 to 299 words score 5 and error, 300 to 999
  score 10 and warning, 1000 to 1499 score 15 and warning, 1500 or more score 20 and good.
  Of two analyses, the one of the content with at least as many words has at least the
  content score of the other.
\<close>

theorem analyzeSEO_content_score_by_word_count:
  assumes "analyzeSEO_on host title description content slug tags = Inr r"
      and "analyzeSEO_on host' title' description' content' slug' tags' = Inr r'"
  shows "wordCount (content_check r) = length (tokens content)
       \<and> (length (tokens content) = 0
            \<longrightarrow> score (content_check r) = 0 \<and> status (content_check r) = Error)
       \<and> (1 \<le> length (tokens content) \<and> length (tokens content) \<le> 299
            \<longrightarrow> score (content_check r) = 5 \<and> status (content_check r) = Error)
       \<and> (300 \<le> length (tokens content) \<and> length (tokens content) \<le> 999
            \<longrightarrow> score (content_check r) = 10 \<and> status (content_check r) = Warning)
       \<and> (1000 \<le> length (tokens content) \<and> length (tokens content) \<le> 1499
            \<longrightarrow> score (content_check r) = 15 \<and> status (content_check r) = Warning)
       \<and> (1500 \<le> length (tokens content)
            \<longrightarrow> score (content_check r) = 20 \<and> status (content_check r) = Good)
       \<and> (length (tokens content) \<le> length (tokens content')
            \<longrightarrow> score (content_check r) \<le> score (content_check r'))"
proof -
  from analyzeSEO_on_fields[OF assms(1)]
  have c: "content_check r = fst (contentBlock (length (tokens content)))"
    by (auto simp: countWords_tokens)
  from analyzeSEO_on_fields[OF assms(2)]
  have c': "content_check r' = fst (contentBlock (length (tokens content')))"
    by (auto simp: countWords_tokens)
  have mono: "m \<le> n \<Longrightarrow> score (fst (contentBlock m)) \<le> score (fst (contentBlock n))" for m n
    by (simp add: contentBlock_def)
  show ?thesis
    unfolding c c' using mono[of "length (tokens content)" "length (tokens content')"]
    by (simp add: contentBlock_def)
qed

theorem analyzeSEO_content_score_by_word_count_witness:
  "\<exists>r r'. analyzeSEO_on RegExp_count [] [] [] [] [] = Inr r
       \<and> analyzeSEO_on RegExp_count [] [] ''hello  world '' [] [] = Inr r'
       \<and> wordCount (content_check r) = 0 \<and> score (content_check r) = 0
       \<and> status (content_check r) = Error
       \<and> wordCount (content_check r') = 2 \<and> score (content_check r') = 5
       \<and> status (content_check r') = Error
       \<and> score (content_check r) \<le> score (content_check r')"
proof -
  from analyzeSEO_no_keyword obtain r where
    h: "analyzeSEO_on RegExp_count [] [] [] [] [] = Inr r" by blast
  from analyzeSEO_no_keyword obtain r' where
    h': "analyzeSEO_on RegExp_count [] [] ''hello  world '' [] [] = Inr r'" by blast
  have n: "length (tokens []) = 0" "length (tokens ''hello  world '') = 2"
    by code_simp+
  from analyzeSEO_content_score_by_word_count[OF h h']
       analyzeSEO_content_score_by_word_count[OF h' h] h h'
  show ?thesis unfolding n by simp
qed

subsection \<open>The keyword check\<close>

text \<open>
  C4, as the specification states it, takes the first two words of the title that are
  not stop words. The source also drops every word of one or two characters: in
  \<^verbatim>\<open>Go is fun\<close> only \<^verbatim>\<open>fun\<close> is left, where the specification gives \<^verbatim>\<open>go fun\<close>.
\<close>

theorem extractFocusKeyword_drops_short_words:
  "extractFocusKeyword ''Go is fun'' [] = ''fun''
   \<and> focusKeyword_as_specified ''Go is fun'' [] = ''go fun''"
  by code_simp

text \<open>
  C4, amended. Whenever \<open>analyzeSEO\<close> returns, the score of the keyword check is 5
  points if the focus keyword is not empty and occurs, case aside, in the title, plus 5
  if it so occurs in the first paragraph, plus 3 if in the last paragraph, plus 7 if the
  keyword density lies between 0.5 and 2.5 and 3 otherwise. The focus keyword is made of
  the usable words of the title: the words of the title in lower case, without the
  characters that are neither ASCII letters, digits, underscores nor white space, as far
  as they are longer than two characters and not stop words. It is the first two usable
  words joined by a space, else the first tag in lower case, else the one usable word,
  else the empty string. The density is what \<open>calculateKeywordDensity\<close> returns for
  the content and that keyword.
\<close>

theorem analyzeSEO_keyword_score:
  assumes "analyzeSEO_on host title description content slug tags = Inr r"
  shows "keyword (keyword_check r)
           = (case usableWords title of
                w0 # w1 # _ \<Rightarrow> w0 @ '' '' @ w1
              | ws \<Rightarrow> (case tags of
                         t # _ \<Rightarrow> toLowerCase t
                       | [] \<Rightarrow> (case ws of w # _ \<Rightarrow> w | [] \<Rightarrow> [])))
       \<and> calculateKeywordDensity host content (keyword (keyword_check r))
           = Inr (density (keyword_check r))
       \<and> score (keyword_check r)
           = (if occursIn (keyword (keyword_check r)) title then 5 else 0)
           + (if occursIn (keyword (keyword_check r)) (getFirstParagraph content) then 5 else 0)
           + (if occursIn (keyword (keyword_check r)) (getLastParagraph content) then 3 else 0)
           + (if 1 / 2 \<le> density (keyword_check r) \<and> density (keyword_check r) \<le> 5 / 2
              then 7 else 3)"
proof -
  from analyzeSEO_on_fields[OF assms] obtain kd kc where
    d: "calculateKeywordDensity host content (extractFocusKeyword title tags) = Inr kd" and
    k: "keyword_check r = fst (keywordBlock title (extractFocusKeyword title tags)
          (getFirstParagraph content) (getLastParagraph content) kd (countWords content) kc)"
    by blast
  have kw: "keyword (keyword_check r) = extractFocusKeyword title tags"
    and dn: "density (keyword_check r) = kd"
    unfolding k by (simp_all add: keywordBlock_def Let_def case_prod_beta)
  have sc: "score (keyword_check r)
      = (if keywordInText title (extractFocusKeyword title tags) then 5 else 0)
      + (if keywordInText (getFirstParagraph content) (extractFocusKeyword title tags) then 5 else 0)
      + (if keywordInText (getLastParagraph content) (extractFocusKeyword title tags) then 3 else 0)
      + (if 1 / 2 \<le> kd \<and> kd \<le> 5 / 2 then 7 else 3)"
    unfolding k by (simp add: keywordBlock_def Let_def case_prod_beta)
  have ex: "extractFocusKeyword title tags
      = (case usableWords title of
           w0 # w1 # _ \<Rightarrow> w0 @ '' '' @ w1
         | ws \<Rightarrow> (case tags of
                    t # _ \<Rightarrow> toLowerCase t
                  | [] \<Rightarrow> (case ws of w # _ \<Rightarrow> w | [] \<Rightarrow> [])))"
    by (simp add: extractFocusKeyword_def titleWords_usableWords)
  show ?thesis
    using ex d sc by (simp add: kw dn keywordInText_occursIn)
qed

theorem analyzeSEO_keyword_score_witness:
  "\<exists>r. analyzeSEO_on RegExp_count ''Go is fun'' [] [] [] [] = Inr r
     \<and> keyword (keyword_check r) = ''fun''
     \<and> density (keyword_check r) = 0
     \<and> score (keyword_check r) = 8"
proof -
  have "\<not> isl (analyzeSEO_on RegExp_count ''Go is fun'' [] [] [] [])"
    by code_simp
  then obtain r where h: "analyzeSEO_on RegExp_count ''Go is fun'' [] [] [] [] = Inr r"
    by (cases "analyzeSEO_on RegExp_count ''Go is fun'' [] [] [] []") auto
  have u: "usableWords ''Go is fun'' = [''fun'']"
    by code_simp
  have o: "occursIn ''fun'' ''Go is fun''" "\<not> occursIn ''fun'' (getFirstParagraph [])"
    "\<not> occursIn ''fun'' (getLastParagraph [])"
    by code_simp+
  have d: "calculateKeywordDensity RegExp_count [] ''fun'' = Inr 0"
    by code_simp
  from analyzeSEO_keyword_score[OF h] have
    kw: "keyword (keyword_check r) = ''fun''" by (simp add: u)
  from analyzeSEO_keyword_score[OF h] have
    "calculateKeywordDensity RegExp_count [] (keyword (keyword_check r))
       = Inr (density (keyword_check r))" by blast
  with d kw have dn: "density (keyword_check r) = 0" by simp
  from analyzeSEO_keyword_score[OF h] have "score (keyword_check r) = 8"
    unfolding kw dn using o by simp
  with h kw dn show ?thesis by blast
qed

section \<open>Properties of the sitemap\<close>

lemma count_list_insort_key: "count_list (insort_key f x xs) a = count_list (x # xs) a"
  by (induction xs) auto

lemma count_list_sort_key: "count_list (sort_key f xs) a = count_list xs a"
  by (induction xs) (auto simp: count_list_insort_key)

lemma sorted_latest_first:
  "sorted_wrt (\<lambda>a b. article_updatedAt b \<le> article_updatedAt a)
     (sort_key (\<lambda>a. - int (article_updatedAt a)) xs)"
proof -
  have "sorted (map (\<lambda>a. - int (article_updatedAt a))
                 (sort_key (\<lambda>a. - int (article_updatedAt a)) xs))"
    by (rule sorted_sort_key)
  then show ?thesis by (simp add: sorted_map)
qed

text \<open>
  C9, as the specification states it, holds for every state of the database. The
  sitemap is also produced when the queries fail: \<open>safeDbOperation\<close> then answers with
  its fallback, the empty list, and the published articles and the active page of the
  tables have no entry.
\<close>

theorem sitemap_without_connection_is_static:
  "article_status (hd (articles unreachableDb)) = PUBLISHED
   \<and> page_isActive (hd (pages unreachableDb))
   \<and> map url (sitemap 12 unreachableDb)
       = [''https://iptv-blogg.site'', ''https://iptv-blogg.site/articles'']"
  by (simp add: unreachableDb_def exampleDb_def sitemap_def findPublishedArticles_def
      findActiveCategories_def findActivePages_def safeDbOperation_def staticPages_def
      baseUrl_def)

text \<open>
  C9, amended. When the three queries reach the database, the sitemap is the two static
  entries, the base URL and the articles index, then one entry for each published
  article, latest first, then one for each active category, then one for each active
  page. The articles behind the entries are the published ones, each as often as it is in
  the table, so no draft and no archived article has an entry; the categories and pages
  behind the entries are the active ones in table order.
\<close>

theorem sitemap_lists_published_and_active:
  assumes "connected p"
  shows "\<exists>arts.
           sitemap now p
             = staticPages now
               @ map (\<lambda>a. articlePage (articleRow a)) arts
               @ map (\<lambda>c. categoryPage (categoryRow c)) (filter category_isActive (categories p))
               @ map (\<lambda>c. customPage (pageRow c)) (filter page_isActive (pages p))
         \<and> map url (staticPages now)
             = [''https://iptv-blogg.site'', ''https://iptv-blogg.site/articles'']
         \<and> (\<forall>a. count_list arts a
                  = count_list (filter (\<lambda>a. article_status a = PUBLISHED) (articles p)) a)
         \<and> sorted_wrt (\<lambda>a b. article_updatedAt b \<le> article_updatedAt a) arts
         \<and> (\<forall>a \<in> set arts. article_status a = PUBLISHED)
         \<and> length (sitemap now p)
             = 2 + length (filter (\<lambda>a. article_status a = PUBLISHED) (articles p))
                 + length (filter category_isActive (categories p))
                 + length (filter page_isActive (pages p))"
proof -
  let ?arts = "sort_key (\<lambda>a. - int (article_updatedAt a))
                 (filter (\<lambda>a. article_status a = PUBLISHED) (articles p))"
  have a: "sitemap now p
      = staticPages now
        @ map (\<lambda>a. articlePage (articleRow a)) ?arts
        @ map (\<lambda>c. categoryPage (categoryRow c)) (filter category_isActive (categories p))
        @ map (\<lambda>c. customPage (pageRow c)) (filter page_isActive (pages p))"
    using assms
    by (simp add: sitemap_def findPublishedArticles_def findActiveCategories_def
        findActivePages_def safeDbOperation_def comp_def)
  have b: "map url (staticPages now)
      = [''https://iptv-blogg.site'', ''https://iptv-blogg.site/articles'']"
    by (simp add: staticPages_def baseUrl_def)
  have c: "\<forall>a. count_list ?arts a
      = count_list (filter (\<lambda>a. article_status a = PUBLISHED) (articles p)) a"
    by (simp add: count_list_sort_key)
  have d: "sorted_wrt (\<lambda>a b. article_updatedAt b \<le> article_updatedAt a) ?arts"
    by (rule sorted_latest_first)
  have e: "\<forall>a \<in> set ?arts. article_status a = PUBLISHED"
    by simp
  have f: "length (sitemap now p)
      = 2 + length (filter (\<lambda>a. article_status a = PUBLISHED) (articles p))
          + length (filter category_isActive (categories p))
          + length (filter page_isActive (pages p))"
    unfolding a by (simp add: staticPages_def)
  show ?thesis
    by (rule exI[of _ ?arts]) (intro conjI a b c d e f)
qed

theorem sitemap_lists_published_and_active_witness:
  "connected exampleDb \<and> length (sitemap 12 exampleDb) = 5
   \<and> map url (sitemap 12 exampleDb)
       = [''https://iptv-blogg.site'', ''https://iptv-blogg.site/articles'',
          ''https://iptv-blogg.site/article/latest-post'',
          ''https://iptv-blogg.site/article/first-post'',
          ''https://iptv-blogg.site/pages/contact'']"
proof -
  have c: "connected exampleDb"
    by (simp add: exampleDb_def)
  from sitemap_lists_published_and_active[OF c, of 12]
  have "length (sitemap 12 exampleDb)
      = 2 + length (filter (\<lambda>a. article_status a = PUBLISHED) (articles exampleDb))
          + length (filter category_isActive (categories exampleDb))
          + length (filter page_isActive (pages exampleDb))"
    by blast
  then have "length (sitemap 12 exampleDb) = 5"
    by (simp add: exampleDb_def)
  moreover have "map url (sitemap 12 exampleDb)
       = [''https://iptv-blogg.site'', ''https://iptv-blogg.site/articles'',
          ''https://iptv-blogg.site/article/latest-post'',
          ''https://iptv-blogg.site/article/first-post'',
          ''https://iptv-blogg.site/pages/contact'']"
    by (simp add: sitemap_def exampleDb_def findPublishedArticles_def findActiveCategories_def
        findActivePages_def safeDbOperation_def staticPages_def articlePage_def categoryPage_def
        customPage_def articleRow_def categoryRow_def pageRow_def baseUrl_def)
  ultimately show ?thesis using c by blast
qed

section \<open>Properties of the upload route\<close>

lemma POST_try_status:
  assumes "POST_try w = Inr resp"
  shows "res_status resp = 200 \<or> res_status resp = 400"
  using assms
  by (auto simp: POST_try_def processUpload_def NextResponse_json_def Let_def
      split: option.splits sum.splits if_splits entry.splits)

text \<open>
  C6, as the specification states it, answers every file over 10485760 bytes with
  \<^verbatim>\<open>File too large. Maximum size is 10MB.\<close> The type is checked before the size: a PDF
  of 20000000 bytes is answered with status 400 and \<^verbatim>\<open>Invalid file type. Only images
  are allowed.\<close>
\<close>

theorem POST_large_file_of_wrong_type:
  "imagekit (requestWith (Some (FileEntry examplePdf))) = Some rejectingUpload
   \<and> formData (requestWith (Some (FileEntry examplePdf))) = Inr (formWith (Some (FileEntry examplePdf)))
   \<and> formWith (Some (FileEntry examplePdf)) ''file'' = Some (FileEntry examplePdf)
   \<and> file_size examplePdf > 10485760
   \<and> POST (requestWith (Some (FileEntry examplePdf)))
       = Inr \<lparr>res_status = 400,
              res_body = JObject [(''error'', JString ''Invalid file type. Only images are allowed.'')]\<rparr>
   \<and> POST (requestWith (Some (FileEntry examplePdf)))
       \<noteq> Inr \<lparr>res_status = 400,
              res_body = JObject [(''error'', JString ''File too large. Maximum size is 10MB.'')]\<rparr>"
  by (simp add: POST_def POST_try_def requestWith_def formWith_def examplePdf_def truthy_def
      allowedTypes_def NextResponse_json_def errorBody_def)

text \<open>
  C6, amended. The handler always answers, with status 200, 400 or 500, and no exception
  leaves it. With ImageKit configured and the form read: a request without a file (no
  \<^verbatim>\<open>file\<close> field, or an empty one) gets status 400 and \<^verbatim>\<open>No file uploaded\<close>; a file
  whose type is not one of the five image types gets status 400 and \<^verbatim>\<open>Invalid file type.
  Only images are allowed.\<close>; a file of one of these types with more than 10485760 bytes gets
  status 400 and \<^verbatim>\<open>File too large. Maximum size is 10MB.\<close> Whatever is thrown inside the
  \<^verbatim>\<open>try\<close> block gets status 500 with the error's message as details.
\<close>

theorem POST_maps_every_error_to_a_status:
  "(\<exists>resp. POST w = Inr resp \<and> res_status resp \<in> {200, 400, 500})
   \<and> (imagekit w = Some upload \<and> formData w = Inr fd \<and> \<not> truthy (fd ''file'')
        \<longrightarrow> POST w = Inr \<lparr>res_status = 400,
              res_body = JObject [(''error'', JString ''No file uploaded'')]\<rparr>)
   \<and> (imagekit w = Some upload \<and> formData w = Inr fd \<and> fd ''file'' = Some (FileEntry file)
        \<and> file_type file \<notin> {''image/jpeg'', ''image/jpg'', ''image/png'', ''image/webp'', ''image/gif''}
        \<longrightarrow> POST w = Inr \<lparr>res_status = 400,
              res_body = JObject [(''error'', JString ''Invalid file type. Only images are allowed.'')]\<rparr>)
   \<and> (imagekit w = Some upload \<and> formData w = Inr fd \<and> fd ''file'' = Some (FileEntry file)
        \<and> file_type file \<in> {''image/jpeg'', ''image/jpg'', ''image/png'', ''image/webp'', ''image/gif''}
        \<and> file_size file > 10485760
        \<longrightarrow> POST w = Inr \<lparr>res_status = 400,
              res_body = JObject [(''error'', JString ''File too large. Maximum size is 10MB.'')]\<rparr>)
   \<and> (POST_try w = Inl e
        \<longrightarrow> POST w = Inr \<lparr>res_status = 500,
              res_body = JObject [(''error'', JString ''Failed to upload file to ImageKit''),
                (''details'', JString (case e of JsError m \<Rightarrow> m | NonError \<Rightarrow> ''Unknown error''))]\<rparr>)"
proof (intro conjI impI)
  show "\<exists>resp. POST w = Inr resp \<and> res_status resp \<in> {200, 400, 500}"
  proof (cases "POST_try w")
    case (Inl e)
    then show ?thesis by (simp add: POST_def NextResponse_json_def)
  next
    case (Inr resp)
    with POST_try_status[OF Inr] show ?thesis by (auto simp: POST_def)
  qed
next
  assume "imagekit w = Some upload \<and> formData w = Inr fd \<and> \<not> truthy (fd ''file'')"
  then show "POST w = Inr \<lparr>res_status = 400,
               res_body = JObject [(''error'', JString ''No file uploaded'')]\<rparr>"
    by (simp add: POST_def POST_try_def NextResponse_json_def errorBody_def)
next
  assume "imagekit w = Some upload \<and> formData w = Inr fd \<and> fd ''file'' = Some (FileEntry file)
        \<and> file_type file \<notin> {''image/jpeg'', ''image/jpg'', ''image/png'', ''image/webp'', ''image/gif''}"
  then show "POST w = Inr \<lparr>res_status = 400,
              res_body = JObject [(''error'', JString ''Invalid file type. Only images are allowed.'')]\<rparr>"
    by (simp add: POST_def POST_try_def NextResponse_json_def errorBody_def truthy_def
        allowedTypes_def)
next
  assume "imagekit w = Some upload \<and> formData w = Inr fd \<and> fd ''file'' = Some (FileEntry file)
        \<and> file_type file \<in> {''image/jpeg'', ''image/jpg'', ''image/png'', ''image/webp'', ''image/gif''}
        \<and> file_size file > 10485760"
  then show "POST w = Inr \<lparr>res_status = 400,
              res_body = JObject [(''error'', JString ''File too large. Maximum size is 10MB.'')]\<rparr>"
    by (simp add: POST_def POST_try_def NextResponse_json_def errorBody_def truthy_def
        allowedTypes_def maxSize_def)
next
  assume "POST_try w = Inl e"
  then show "POST w = Inr \<lparr>res_status = 500,
              res_body = JObject [(''error'', JString ''Failed to upload file to ImageKit''),
                (''details'', JString (case e of JsError m \<Rightarrow> m | NonError \<Rightarrow> ''Unknown error''))]\<rparr>"
    by (simp add: POST_def NextResponse_json_def)
qed

theorem POST_maps_every_error_to_a_status_witness:
  "POST (requestWith None)
     = Inr \<lparr>res_status = 400, res_body = JObject [(''error'', JString ''No file uploaded'')]\<rparr>
   \<and> POST (requestWith (Some (FileEntry examplePdf)))
     = Inr \<lparr>res_status = 400,
            res_body = JObject [(''error'', JString ''Invalid file type. Only images are allowed.'')]\<rparr>
   \<and> POST (requestWith (Some (FileEntry (examplePng 10485761))))
     = Inr \<lparr>res_status = 400,
            res_body = JObject [(''error'', JString ''File too large. Maximum size is 10MB.'')]\<rparr>
   \<and> POST brokenRequest
     = Inr \<lparr>res_status = 500,
            res_body = JObject [(''error'', JString ''Failed to upload file to ImageKit''),
                                (''details'', JString ''Failed to parse body as FormData.'')]\<rparr>"
proof -
  note t = POST_maps_every_error_to_a_status
  have k: "imagekit (requestWith e) = Some rejectingUpload"
    "formData (requestWith e) = Inr (formWith e)" "formWith e ''file'' = e" for e
    by (simp_all add: requestWith_def formWith_def)
  have "POST (requestWith None)
     = Inr \<lparr>res_status = 400, res_body = JObject [(''error'', JString ''No file uploaded'')]\<rparr>"
    using t[of "requestWith None" rejectingUpload "formWith None"] k[of None]
    by (simp add: truthy_def)
  moreover have "POST (requestWith (Some (FileEntry examplePdf)))
     = Inr \<lparr>res_status = 400,
            res_body = JObject [(''error'', JString ''Invalid file type. Only images are allowed.'')]\<rparr>"
    using t[of "requestWith (Some (FileEntry examplePdf))" rejectingUpload
            "formWith (Some (FileEntry examplePdf))" examplePdf]
          k[of "Some (FileEntry examplePdf)"]
    by (simp add: examplePdf_def)
  moreover have "POST (requestWith (Some (FileEntry (examplePng 10485761))))
     = Inr \<lparr>res_status = 400,
            res_body = JObject [(''error'', JString ''File too large. Maximum size is 10MB.'')]\<rparr>"
    using t[of "requestWith (Some (FileEntry (examplePng 10485761)))" rejectingUpload
            "formWith (Some (FileEntry (examplePng 10485761)))" "examplePng 10485761"]
          k[of "Some (FileEntry (examplePng 10485761))"]
    by (simp add: examplePng_def)
  moreover have "POST_try brokenRequest = Inl (JsError ''Failed to parse body as FormData.'')"
    by (simp add: POST_try_def brokenRequest_def)
  then have "POST brokenRequest
     = Inr \<lparr>res_status = 500,
            res_body = JObject [(''error'', JString ''Failed to upload file to ImageKit''),
                                (''details'', JString ''Failed to parse body as FormData.'')]\<rparr>"
    using t[of brokenRequest _ _ _ "JsError ''Failed to parse body as FormData.''"] by simp
  ultimately show ?thesis by blast
qed

section \<open>Shared state between requests\<close>




end
